theory Spec2Isabelle
  imports Main
begin

section \<open>JavaScript values\<close>

text \<open>
  The values that cross the provider's boundaries are untyped at run time: what
  \<^verbatim>\<open>workspaceState.get\<close> returns, the \<^verbatim>\<open>data\<close> of a webview message (declared
  \<^verbatim>\<open>any\<close>), the arguments and results of the parser's methods. They are modelled as
  JSON-like values. An object is an association list, in the order its literal is written.
\<close>

datatype js =
    Undefined
  | Null
  | Bool bool
  | Num int
  | Str string
  | Arr "js list"
  | Obj "(string \<times> js) list"

datatype js_error = TypeError

text \<open>\<^verbatim>\<open>if (v)\<close>, \<^verbatim>\<open>!v\<close> and \<^verbatim>\<open>v ? a : b\<close> test truthiness.\<close>

fun truthy :: "js \<Rightarrow> bool" where
  "truthy Undefined = False"
| "truthy Null = False"
| "truthy (Bool b) = b"
| "truthy (Num n) = (n \<noteq> 0)"
| "truthy (Str s) = (s \<noteq> [])"
| "truthy (Arr xs) = True"
| "truthy (Obj kvs) = True"

definition nullish :: "js \<Rightarrow> bool" where
  "nullish v = (v = Undefined \<or> v = Null)"

text \<open>
  \<^verbatim>\<open>v.k\<close> for a data property \<open>k\<close> of a value that is neither \<^verbatim>\<open>undefined\<close> nor
  \<^verbatim>\<open>null\<close>: an object gives the field or \<^verbatim>\<open>undefined\<close>, every other value gives
  \<^verbatim>\<open>undefined\<close> (the names read by the provider, \<^verbatim>\<open>type\<close>, \<^verbatim>\<open>value\<close>,
  \<^verbatim>\<open>filePath\<close>, \<^verbatim>\<open>id\<close> and \<^verbatim>\<open>expanded\<close>, are no built-in property of a string or an
  array). On \<^verbatim>\<open>undefined\<close> and \<^verbatim>\<open>null\<close> the read throws; \<open>member\<close> is the read with
  that branch.
\<close>

fun property :: "js \<Rightarrow> string \<Rightarrow> js" where
  "property (Obj kvs) k = (case map_of kvs k of None \<Rightarrow> Undefined | Some v \<Rightarrow> v)"
| "property v k = Undefined"

definition member :: "js \<Rightarrow> string \<Rightarrow> js_error + js" where
  "member v k = (if nullish v then Inl TypeError else Inr (property v k))"

text \<open>\<^verbatim>\<open>v[0]\<close> and \<^verbatim>\<open>v[1]\<close> on a value that is neither \<^verbatim>\<open>undefined\<close> nor \<^verbatim>\<open>null\<close>.\<close>

fun decimal :: "nat \<Rightarrow> string" where
  "decimal n =
     (if n < 10 then [char_of (48 + n)] else decimal (n div 10) @ [char_of (48 + n mod 10)])"

fun element :: "js \<Rightarrow> nat \<Rightarrow> js" where
  "element (Arr xs) i = (if i < length xs then xs ! i else Undefined)"
| "element (Str s) i = (if i < length s then Str [s ! i] else Undefined)"
| "element (Obj kvs) i = property (Obj kvs) (decimal i)"
| "element v i = Undefined"

definition message :: "string \<Rightarrow> js \<Rightarrow> js" where
  "message t v = Obj [(''type'', Str t), (''value'', v)]"

section \<open>The parser, as the provider sees it\<close>

text \<open>
  \<^verbatim>\<open>SaplingParser\<close> is imported from \<^verbatim>\<open>./SaplingParser\<close>. The provider uses its
  constructor, two of its fields and nine of its methods; they are the parameters of the
  model, over any type \<open>'p\<close> of parser states. A method that changes the parser returns
  the new state. \<^verbatim>\<open>new SaplingParser('')\<close> passes \<open>Undefined\<close> for the settings.
  Every method is taken to return: a parser method that throws is outside this model.
\<close>

record 'p parser_class =
  SaplingParser :: "js \<Rightarrow> js \<Rightarrow> 'p"
  entryFile :: "'p \<Rightarrow> js"
  settings :: "'p \<Rightarrow> js"
  setTree :: "js \<Rightarrow> 'p \<Rightarrow> 'p"
  getTree :: "'p \<Rightarrow> js"
  setEntryFile :: "string \<Rightarrow> 'p \<Rightarrow> 'p"
  updateSettings :: "js \<Rightarrow> js \<Rightarrow> 'p \<Rightarrow> 'p"
  validSettings :: "'p \<Rightarrow> bool"
  parse :: "'p \<Rightarrow> 'p"
  updateTree :: "string \<Rightarrow> 'p \<Rightarrow> 'p"
  toggleNode :: "js \<Rightarrow> js \<Rightarrow> 'p \<Rightarrow> js \<times> 'p"

text \<open>The constructor and method calls made on the parser, as a trace.\<close>

datatype call =
    New js js
  | SetTree js
  | GetTree
  | SetEntryFile string
  | UpdateSettings js js
  | ValidSettings
  | Parse
  | UpdateTree string
  | ToggleNode js js

section \<open>The sidebar provider\<close>

text \<open>
  The state of a \<^verbatim>\<open>SidebarProvider\<close>: \<open>view\<close> is \<^verbatim>\<open>_view\<close> (a webview is a
  number), \<open>parser\<close> is \<^verbatim>\<open>parser\<close>, \<open>workspaceState\<close> is
  \<^verbatim>\<open>context.workspaceState\<close> (a key that is not stored reads \<open>Undefined\<close>, and
  \<^verbatim>\<open>update(k, undefined)\<close> removes \<open>k\<close>). The effects are kept as two traces, oldest
  first: \<open>posted\<close> holds every \<^verbatim>\<open>webview.postMessage\<close> with the webview it went to,
  \<open>calls\<close> every call made on the parser.
\<close>

record 'p SidebarProvider =
  view :: "nat option"
  parser :: 'p
  workspaceState :: "string \<Rightarrow> js"
  posted :: "(nat \<times> js) list"
  calls :: "call list"

text \<open>
  What the provider reads from the editor when it runs: the workspace folders (their
  \<^verbatim>\<open>uri.fsPath\<close>; \<open>None\<close> is \<^verbatim>\<open>undefined\<close>), the answer of the file dialog for
  \<^verbatim>\<open>canSelectMany\<close> and \<^verbatim>\<open>canSelectFolders\<close> (the \<^verbatim>\<open>fsPath\<close> of the chosen
  resources), the file name of the active editor, and
  \<^verbatim>\<open>getConfiguration('sapling').view\<close>.
\<close>

record vscode =
  workspaceFolders :: "string list option"
  showOpenDialog :: "bool \<Rightarrow> bool \<Rightarrow> string list option"
  activeTextEditor :: "string option"
  configuration_view :: js

definition logged :: "call \<Rightarrow> 'p SidebarProvider \<Rightarrow> 'p SidebarProvider" where
  "logged c s = s\<lparr>calls := calls s @ [c]\<rparr>"

definition postMessage :: "nat \<Rightarrow> js \<Rightarrow> 'p SidebarProvider \<Rightarrow> 'p SidebarProvider" where
  "postMessage w m s = s\<lparr>posted := posted s @ [(w, m)]\<rparr>"

definition update :: "string \<Rightarrow> js \<Rightarrow> 'p SidebarProvider \<Rightarrow> 'p SidebarProvider" where
  "update k v s = s\<lparr>workspaceState := (workspaceState s)(k := v)\<rparr>"

definition call_setEntryFile ::
  "'p parser_class \<Rightarrow> string \<Rightarrow> 'p SidebarProvider \<Rightarrow> 'p SidebarProvider" where
  "call_setEntryFile ops f s = logged (SetEntryFile f) (s\<lparr>parser := setEntryFile ops f (parser s)\<rparr>)"

definition call_parse :: "'p parser_class \<Rightarrow> 'p SidebarProvider \<Rightarrow> 'p SidebarProvider" where
  "call_parse ops s = logged Parse (s\<lparr>parser := parse ops (parser s)\<rparr>)"

definition call_updateTree ::
  "'p parser_class \<Rightarrow> string \<Rightarrow> 'p SidebarProvider \<Rightarrow> 'p SidebarProvider" where
  "call_updateTree ops f s = logged (UpdateTree f) (s\<lparr>parser := updateTree ops f (parser s)\<rparr>)"

definition call_updateSettings ::
  "'p parser_class \<Rightarrow> js \<Rightarrow> js \<Rightarrow> 'p SidebarProvider \<Rightarrow> 'p SidebarProvider" where
  "call_updateSettings ops k v s =
     logged (UpdateSettings k v) (s\<lparr>parser := updateSettings ops k v (parser s)\<rparr>)"

subsection \<open>\<^verbatim>\<open>constructor\<close>\<close>

text \<open>
  \<^verbatim>\<open>if (workspace) workspaceRoot = workspace[0].uri.fsPath\<close>: an array is truthy also
  when it is empty, and then \<^verbatim>\<open>workspace[0]\<close> is \<^verbatim>\<open>undefined\<close> and reading its
  \<^verbatim>\<open>uri\<close> throws.
\<close>

definition workspaceRoot :: "vscode \<Rightarrow> js_error + string" where
  "workspaceRoot vs =
     (case workspaceFolders vs of
        None \<Rightarrow> Inr []
      | Some [] \<Rightarrow> Inl TypeError
      | Some (folder # _) \<Rightarrow> Inr folder)"

definition default_settings :: "string \<Rightarrow> js" where
  "default_settings root =
     Obj [(''useAlias'', Bool False), (''appRoot'', Str root),
          (''webpackConfig'', Str []), (''tsConfig'', Str [])]"

definition constructor ::
  "'p parser_class \<Rightarrow> (string \<Rightarrow> js) \<Rightarrow> vscode \<Rightarrow> js_error + 'p SidebarProvider" where
  "constructor ops context vs =
     (let treeState = context ''sapling'';
          settingsState = context ''saplingSettings''
      in case workspaceRoot vs of
           Inl e \<Rightarrow> Inl e
         | Inr root \<Rightarrow>
             let settings0 = (if truthy settingsState then settingsState else default_settings root)
             in if truthy treeState
                then Inr \<lparr>view = None,
                          parser = setTree ops treeState
                                     (SaplingParser ops (property treeState ''filePath'') settings0),
                          workspaceState = context, posted = [],
                          calls = [New (property treeState ''filePath'') settings0, SetTree treeState]\<rparr>
                else Inr \<lparr>view = None,
                          parser = SaplingParser ops (Str []) settings0,
                          workspaceState = context, posted = [],
                          calls = [New (Str []) settings0]\<rparr>)"

subsection \<open>\<^verbatim>\<open>updateView\<close>, \<^verbatim>\<open>selectFile\<close>\<close>

definition updateView :: "'p parser_class \<Rightarrow> 'p SidebarProvider \<Rightarrow> 'p SidebarProvider" where
  "updateView ops s =
     (case view s of
        None \<Rightarrow> s
      | Some w \<Rightarrow>
          let tree = getTree ops (parser s)
          in postMessage w (message ''settings-data'' (settings ops (parser s)))
               (postMessage w (message ''parsed-data'' tree)
                  (update ''sapling'' tree (logged GetTree s))))"

definition selectFile :: "vscode \<Rightarrow> bool \<Rightarrow> bool \<Rightarrow> js_error + string option" where
  "selectFile vs selectMany selectFolders =
     (case showOpenDialog vs selectMany selectFolders of
        None \<Rightarrow> Inr None
      | Some [] \<Rightarrow> Inl TypeError
      | Some (uri # _) \<Rightarrow> Inr (Some uri))"

subsection \<open>\<^verbatim>\<open>resolveWebviewView\<close> and the listeners it registers\<close>

text \<open>
  \<^verbatim>\<open>resolveWebviewView\<close> stores the webview in \<^verbatim>\<open>_view\<close>, sets its options and its
  HTML, and registers four listeners. Each listener is a function below; the ones that use
  the \<^verbatim>\<open>webviewView\<close> of their closure take it as an argument. A listener that awaits the
  file dialog does nothing with the provider before the dialog answers, so it is modelled
  from the answer on, as one step.
\<close>

definition resolveWebviewView :: "nat \<Rightarrow> 'p SidebarProvider \<Rightarrow> 'p SidebarProvider" where
  "resolveWebviewView webviewView s = s\<lparr>view := Some webviewView\<rparr>"

definition revive :: "nat \<Rightarrow> 'p SidebarProvider \<Rightarrow> 'p SidebarProvider" where
  "revive panel s = s\<lparr>view := Some panel\<rparr>"

definition onDidChangeConfiguration ::
  "vscode \<Rightarrow> nat \<Rightarrow> 'p SidebarProvider \<Rightarrow> 'p SidebarProvider" where
  "onDidChangeConfiguration vs webviewView s =
     postMessage webviewView (message ''preferences-data'' (configuration_view vs)) s"

definition onDidChangeActiveTextEditor ::
  "string option \<Rightarrow> nat \<Rightarrow> 'p SidebarProvider \<Rightarrow> 'p SidebarProvider" where
  "onDidChangeActiveTextEditor e webviewView s =
     postMessage webviewView
       (message ''current-tab'' (case e of None \<Rightarrow> Undefined | Some fileName \<Rightarrow> Str fileName)) s"

definition onDidSaveTextDocument ::
  "'p parser_class \<Rightarrow> string \<Rightarrow> 'p SidebarProvider \<Rightarrow> 'p SidebarProvider" where
  "onDidSaveTextDocument ops fileName s =
     (if \<not> truthy (entryFile ops (parser s)) then s
      else updateView ops (call_updateTree ops fileName s))"

text \<open>
  The inner \<^verbatim>\<open>switch (data.value[0])\<close> of the \<^verbatim>\<open>'settings'\<close> case: \<open>Inr None\<close> is
  its \<^verbatim>\<open>return\<close>, \<open>Inr (Some s')\<close> leaves the switch with the provider \<open>s'\<close>. A key
  that matches no case leaves it unchanged.
\<close>

definition settings_switch ::
  "'p parser_class \<Rightarrow> vscode \<Rightarrow> js \<Rightarrow> 'p SidebarProvider \<Rightarrow> js_error + 'p SidebarProvider option" where
  "settings_switch ops vs v s =
     (if element v 0 = Str ''useAlias''
      then Inr (Some (call_updateSettings ops (Str ''useAlias'') (element v 1) s))
      else if element v 0 = Str ''appRoot''
      then (case selectFile vs False True of
              Inl e \<Rightarrow> Inl e
            | Inr None \<Rightarrow> Inr None
            | Inr (Some rootPath) \<Rightarrow>
                if rootPath = [] then Inr None
                else Inr (Some (call_updateSettings ops (Str ''appRoot'') (Str rootPath) s)))
      else if element v 0 = Str ''webpackConfig'' \<or> element v 0 = Str ''tsConfig''
      then (case selectFile vs False False of
              Inl e \<Rightarrow> Inl e
            | Inr None \<Rightarrow> Inr None
            | Inr (Some filePath) \<Rightarrow>
                if filePath = [] then Inr None
                else Inr (Some (call_updateSettings ops (element v 0) (Str filePath) s)))
      else Inr (Some s))"

definition case_settings ::
  "'p parser_class \<Rightarrow> vscode \<Rightarrow> js \<Rightarrow> 'p SidebarProvider \<Rightarrow> js_error + 'p SidebarProvider" where
  "case_settings ops vs v s =
     (if \<not> truthy v then Inr s
      else case settings_switch ops vs v s of
             Inl e \<Rightarrow> Inl e
           | Inr None \<Rightarrow> Inr s
           | Inr (Some s1) \<Rightarrow>
               let s2 = logged ValidSettings (update ''saplingSettings'' (settings ops (parser s1)) s1)
               in Inr (updateView ops
                         (if validSettings ops (parser s2) then call_parse ops s2 else s2)))"

definition case_onFile ::
  "'p parser_class \<Rightarrow> vscode \<Rightarrow> 'p SidebarProvider \<Rightarrow> js_error + 'p SidebarProvider" where
  "case_onFile ops vs s =
     (case selectFile vs False False of
        Inl e \<Rightarrow> Inl e
      | Inr None \<Rightarrow> Inr s
      | Inr (Some filePath) \<Rightarrow>
          if filePath = [] then Inr s
          else Inr (updateView ops (call_parse ops (call_setEntryFile ops filePath s))))"

text \<open>
  \<^verbatim>\<open>'onNodeToggle'\<close>: the arguments \<^verbatim>\<open>data.value.id\<close> and \<^verbatim>\<open>data.value.expanded\<close>
  are read before \<^verbatim>\<open>toggleNode\<close> is called, and throw when \<^verbatim>\<open>data.value\<close> is
  \<^verbatim>\<open>undefined\<close> or \<^verbatim>\<open>null\<close>.
\<close>

definition case_onNodeToggle ::
  "'p parser_class \<Rightarrow> js \<Rightarrow> 'p SidebarProvider \<Rightarrow> js_error + 'p SidebarProvider" where
  "case_onNodeToggle ops v s =
     (if \<not> truthy (entryFile ops (parser s)) then Inr s
      else case member v ''id'' of
             Inl e \<Rightarrow> Inl e
           | Inr i \<Rightarrow>
               let (tree, p) = toggleNode ops i (property v ''expanded'') (parser s)
               in Inr (update ''sapling'' tree
                         (logged (ToggleNode i (property v ''expanded'')) (s\<lparr>parser := p\<rparr>))))"

definition case_onBoldCheck :: "vscode \<Rightarrow> 'p SidebarProvider \<Rightarrow> 'p SidebarProvider" where
  "case_onBoldCheck vs s =
     (case view s of
        None \<Rightarrow> s
      | Some w \<Rightarrow>
          (case activeTextEditor vs of
             None \<Rightarrow> s
           | Some fileName \<Rightarrow>
               if fileName = [] then s else postMessage w (message ''current-tab'' (Str fileName)) s))"

text \<open>
  \<^verbatim>\<open>switch (data.type)\<close>. \<^verbatim>\<open>'onViewFile'\<close> opens a document in the editor and leaves
  the provider as it is. A type that matches no case does nothing.
\<close>

definition onDidReceiveMessage ::
  "'p parser_class \<Rightarrow> vscode \<Rightarrow> nat \<Rightarrow> js \<Rightarrow> 'p SidebarProvider \<Rightarrow> js_error + 'p SidebarProvider" where
  "onDidReceiveMessage ops vs webviewView dat s =
     (case member dat ''type'' of
        Inl e \<Rightarrow> Inl e
      | Inr t \<Rightarrow>
          if t = Str ''settings'' then case_settings ops vs (property dat ''value'') s
          else if t = Str ''onFile'' then case_onFile ops vs s
          else if t = Str ''onViewFile'' then Inr s
          else if t = Str ''onSaplingVisible'' then Inr (updateView ops s)
          else if t = Str ''onPreferencesAcquire''
          then Inr (postMessage webviewView (message ''preferences-data'' (configuration_view vs)) s)
          else if t = Str ''onNodeToggle'' then case_onNodeToggle ops (property dat ''value'') s
          else if t = Str ''onBoldCheck'' then Inr (case_onBoldCheck vs s)
          else Inr s)"

subsection \<open>The commands\<close>

definition statusButtonClicked ::
  "'p parser_class \<Rightarrow> vscode \<Rightarrow> string option \<Rightarrow> 'p SidebarProvider \<Rightarrow> 'p SidebarProvider" where
  "statusButtonClicked ops vs uri s =
     (case (case uri of None \<Rightarrow> activeTextEditor vs | Some path \<Rightarrow> Some path) of
        None \<Rightarrow> s
      | Some fileName \<Rightarrow>
          if fileName = [] then s
          else updateView ops (call_parse ops (call_setEntryFile ops fileName s)))"

definition clearWorkSpaceState :: "'p parser_class \<Rightarrow> 'p SidebarProvider \<Rightarrow> 'p SidebarProvider" where
  "clearWorkSpaceState ops s =
     updateView ops
       (logged (New (Str []) Undefined)
          ((update ''saplingSettings'' Undefined (update ''sapling'' Undefined s))
             \<lparr>parser := SaplingParser ops (Str []) Undefined\<rparr>))"

section \<open>The parser of the specification\<close>

text \<open>
  The source of \<^verbatim>\<open>SaplingParser\<close> and of the types \<^verbatim>\<open>Tree\<close> and
  \<^verbatim>\<open>SaplingSettings\<close> is not part of the sources at hand. What follows is the Tree
  Builder and the Tree Store as sections 3 and 4 of the specification describe them.
\<close>

subsection \<open>Data model\<close>

text \<open>
  Modelled from the spec: the error kinds of section 7 that are recovered locally and
  recorded on a node.
\<close>

datatype error_kind = FileNotFound | UnresolvedAlias | UnparseableSource

text \<open>
  Modelled from the spec: the type \<^verbatim>\<open>Node\<close> of section 3, with its six fields. The
  specification marks a node as a cycle leaf without naming a field for the mark; it is
  the seventh field, \<open>cycle\<close>. Identifiers are numbers.
\<close>

datatype Node =
  Node (node_id: nat) (filePath: string) (name: string) (children: "Node list")
       (expanded: bool) (error: "error_kind option") (cycle: bool)

text \<open>
  Modelled from the spec: the type \<^verbatim>\<open>Tree\<close> (\<^verbatim>\<open>types/Tree\<close> is missing), "the
  persisted/exported shape \<^verbatim>\<open>{ entryFilePath, root: Node }\<close>".
\<close>

record Tree =
  entryFilePath :: string
  root :: Node

text \<open>
  Modelled from the spec: the results of the Source Analyzer and of the Module Resolver
  (sections 4.1 and 4.2), which the Tree Builder consumes. A project lists the files on
  disk with the analysis of each: unparseable, or a display name and, for every import in
  source order, what the resolver answers under the settings in force (a path, a package
  boundary, or a failure with the specifier).
\<close>

datatype resolution = Resolved string | External | Unresolved string error_kind

datatype analysis = Unparseable | Analysed "string option" "resolution list"

type_synonym project = "(string \<times> analysis) list"

text \<open>
  Modelled from the spec: the file name a node falls back to as its display name, the part
  of the path after the last slash.
\<close>

definition basename :: "string \<Rightarrow> string" where
  "basename f = rev (takeWhile (\<lambda>c. c \<noteq> CHR ''/'') (rev f))"

subsection \<open>Tree Builder\<close>

text \<open>
  Modelled from the spec: \<^verbatim>\<open>build\<close> of section 4.3 with the cycle rule of section 3.
  \<open>build_node\<close> builds the node of file \<open>f\<close>; \<open>stack\<close> holds the file paths on the
  current recursion path, \<open>ex\<close> is the node's \<open>expanded\<close> flag and \<open>n\<close> the next
  identifier to mint; the result carries the next free identifier. A file already on the
  path becomes a cycle leaf, a missing or unparseable file an error leaf. \<open>build_children\<close>
  walks the imports in order: a resolved path is recursed into, a package boundary gives no
  node, a failed resolution an error leaf.
\<close>

function build_node :: "project \<Rightarrow> string list \<Rightarrow> bool \<Rightarrow> nat \<Rightarrow> string \<Rightarrow> Node \<times> nat"
  and build_children :: "project \<Rightarrow> string list \<Rightarrow> nat \<Rightarrow> resolution list \<Rightarrow> Node list \<times> nat"
where
  "build_node pr stack ex n f =
     (if f \<in> set stack then (Node n f (basename f) [] ex None True, Suc n)
      else case map_of pr f of
             None \<Rightarrow> (Node n f (basename f) [] ex (Some FileNotFound) False, Suc n)
           | Some Unparseable \<Rightarrow>
               (Node n f (basename f) [] ex (Some UnparseableSource) False, Suc n)
           | Some (Analysed displayName imps) \<Rightarrow>
               (case build_children pr (f # stack) (Suc n) imps of
                  (cs, n') \<Rightarrow>
                    (Node n f (case displayName of None \<Rightarrow> basename f | Some d \<Rightarrow> d)
                       cs ex None False, n')))"
| "build_children pr stack n [] = ([], n)"
| "build_children pr stack n (Resolved p # imps) =
     (case build_node pr stack False n p of
        (c, n1) \<Rightarrow> (case build_children pr stack n1 imps of (cs, n2) \<Rightarrow> (c # cs, n2)))"
| "build_children pr stack n (External # imps) = build_children pr stack n imps"
| "build_children pr stack n (Unresolved specifier e # imps) =
     (case build_children pr stack (Suc n) imps of
        (cs, n') \<Rightarrow> (Node n specifier (basename specifier) [] False (Some e) False # cs, n'))"
  by pat_completeness auto

text \<open>
  The recursion ends: a call that descends puts a file of the project on the path that
  was not on it, so the number of project files off the path falls; along a list of
  imports the path is unchanged and the list shrinks.
\<close>

termination
proof (relation "measures
    [\<lambda>x. case x of Inl (pr, stack, ex, n, f) \<Rightarrow> card (fst ` set pr - set stack)
               | Inr (pr, stack, n, imps) \<Rightarrow> card (fst ` set pr - set stack),
     \<lambda>x. case x of Inl _ \<Rightarrow> 0 | Inr (pr, stack, n, imps) \<Rightarrow> Suc (length imps)]")
  show "wf (measures
    [\<lambda>x. case x of Inl (pr, stack, ex, n, f) \<Rightarrow> card (fst ` set pr - set stack)
               | Inr (pr, stack, n, imps) \<Rightarrow> card (fst ` set pr - set stack),
     \<lambda>x. case x of Inl _ \<Rightarrow> 0 | Inr (pr, stack, n, imps) \<Rightarrow> Suc (length imps)])"
    by simp
next
  fix pr :: project and stack ex n f x2 x21 x22
  assume a: "f \<notin> set stack" "map_of pr f = Some x2"
  from a(2) have "map_of pr f \<noteq> None" by simp
  then have "f \<in> fst ` set pr" by (simp add: map_of_eq_None_iff)
  then have "fst ` set pr - set (f # stack) \<subset> fst ` set pr - set stack"
    using a(1) by auto
  then have "card (fst ` set pr - set (f # stack)) < card (fst ` set pr - set stack)"
    by (intro psubset_card_mono) auto
  then show "(Inr (pr, f # stack, Suc n, x22), Inl (pr, stack, ex, n, f)) \<in> measures
    [\<lambda>x. case x of Inl (pr, stack, ex, n, f) \<Rightarrow> card (fst ` set pr - set stack)
               | Inr (pr, stack, n, imps) \<Rightarrow> card (fst ` set pr - set stack),
     \<lambda>x. case x of Inl _ \<Rightarrow> 0 | Inr (pr, stack, n, imps) \<Rightarrow> Suc (length imps)]"
    by simp
qed simp_all

text \<open>
  Modelled from the spec: \<^verbatim>\<open>build(entryFile, settings)\<close> of section 4.3. The
  traversal starts at the entry file with an empty path; the root is expanded, every other
  node collapsed.
\<close>

definition build :: "project \<Rightarrow> string \<Rightarrow> Tree" where
  "build pr entry = \<lparr>entryFilePath = entry, root = fst (build_node pr [] True 0 entry)\<rparr>"

text \<open>
  The tree that sections 3 and 4.3 ask for, as a relation between the project and a tree
  whose ancestors' files are \<open>stack\<close>. A node whose file is on that path is the second
  occurrence of a cycled file: it carries the cycle mark, has no error and no children. A
  node whose file is off the path carries no cycle mark; it is an error leaf if the file
  is missing or cannot be parsed, and otherwise it has no error and its children are the
  file's imports, one child for each import that is not an external package, in source
  order: for an import resolved to the path \<open>p\<close> a node of the file \<open>p\<close> that is again
  such a tree, below the path extended with the node's own file, and for an import that
  did not resolve a childless leaf with the specifier and the error. \<open>depth\<close> counts the
  levels of a tree.
\<close>

fun mirrors :: "project \<Rightarrow> string list \<Rightarrow> Node \<Rightarrow> bool"
  and mirrors_children :: "project \<Rightarrow> string list \<Rightarrow> resolution list \<Rightarrow> Node list \<Rightarrow> bool"
where
  "mirrors pr stack (Node i f nm cs ex err cyc) =
     (if f \<in> set stack then cyc \<and> err = None \<and> cs = []
      else \<not> cyc \<and>
           (case map_of pr f of
              None \<Rightarrow> err = Some FileNotFound \<and> cs = []
            | Some Unparseable \<Rightarrow> err = Some UnparseableSource \<and> cs = []
            | Some (Analysed displayName imps) \<Rightarrow>
                err = None \<and> mirrors_children pr (f # stack) imps cs))"
| "mirrors_children pr stack [] cs = (cs = [])"
| "mirrors_children pr stack (External # imps) cs = mirrors_children pr stack imps cs"
| "mirrors_children pr stack (Resolved p # imps) [] = False"
| "mirrors_children pr stack (Resolved p # imps) (c # cs) =
     (filePath c = p \<and> mirrors pr stack c \<and> mirrors_children pr stack imps cs)"
| "mirrors_children pr stack (Unresolved specifier e # imps) [] = False"
| "mirrors_children pr stack (Unresolved specifier e # imps) (c # cs) =
     (filePath c = specifier \<and> error c = Some e \<and> \<not> cycle c \<and> children c = [] \<and>
      mirrors_children pr stack imps cs)"

fun depth :: "Node \<Rightarrow> nat" where
  "depth (Node i f nm cs ex err cyc) = Suc (foldr max (map depth cs) 0)"

subsection \<open>Tree Store\<close>

text \<open>
  Modelled from the spec: \<^verbatim>\<open>toggleNode(id, expanded)\<close> of section 4.4 on a tree,
  "sets the \<^verbatim>\<open>expanded\<close> flag on the node with that id".
\<close>

fun toggle :: "nat \<Rightarrow> bool \<Rightarrow> Node \<Rightarrow> Node" where
  "toggle i e (Node j f nm cs ex err cyc) =
     Node j f nm (map (toggle i e) cs) (if j = i then e else ex) err cyc"

text \<open>
  The nodes of a tree, parents before children, left to right; and a tree with every
  \<^verbatim>\<open>expanded\<close> flag cleared, which is all of the tree but its flags.
\<close>

fun nodes :: "Node \<Rightarrow> Node list" where
  "nodes (Node i f nm cs ex err cyc) = Node i f nm cs ex err cyc # concat (map nodes cs)"

fun collapsed :: "Node \<Rightarrow> Node" where
  "collapsed (Node i f nm cs ex err cyc) = Node i f nm (map collapsed cs) False err cyc"

text \<open>
  Modelled from the spec: trees and nodes as the plain structured records of section 6,
  for the workspace store and the messages: an object with one field for each field of the
  record. \<open>encode\<close> writes the object, \<open>decode\<close> reads it back and gives \<open>None\<close> for a
  value that is no such object.
\<close>

fun encode_error :: "error_kind option \<Rightarrow> js" where
  "encode_error None = Null"
| "encode_error (Some FileNotFound) = Str ''FileNotFound''"
| "encode_error (Some UnresolvedAlias) = Str ''UnresolvedAlias''"
| "encode_error (Some UnparseableSource) = Str ''UnparseableSource''"

definition decode_error :: "js \<Rightarrow> error_kind option option" where
  "decode_error v =
     (if v = Null then Some None
      else if v = Str ''FileNotFound'' then Some (Some FileNotFound)
      else if v = Str ''UnresolvedAlias'' then Some (Some UnresolvedAlias)
      else if v = Str ''UnparseableSource'' then Some (Some UnparseableSource)
      else None)"

fun encode_node :: "Node \<Rightarrow> js" where
  "encode_node (Node i f nm cs ex err cyc) =
     Obj [(''id'', Num (int i)), (''filePath'', Str f), (''name'', Str nm),
          (''children'', Arr (map encode_node cs)), (''expanded'', Bool ex),
          (''error'', encode_error err), (''cycle'', Bool cyc)]"

definition encode_tree :: "Tree \<Rightarrow> js" where
  "encode_tree t = Obj [(''entryFilePath'', Str (entryFilePath t)), (''root'', encode_node (root t))]"

function decode_node :: "js \<Rightarrow> Node option" where
  "decode_node v =
     (case (property v ''id'', property v ''filePath'', property v ''name'',
            property v ''children'', property v ''expanded'', property v ''cycle'') of
        (Num i, Str f, Str nm, Arr cs, Bool ex, Bool cyc) \<Rightarrow>
          (case (those (map decode_node cs), decode_error (property v ''error'')) of
             (Some ns, Some err) \<Rightarrow>
               if 0 \<le> i then Some (Node (nat i) f nm ns ex err cyc) else None
           | _ \<Rightarrow> None)
      | _ \<Rightarrow> None)"
  by pat_completeness auto

termination
proof -
  have smaller: "size x < size v" if a: "Arr cs = property v ''children''" "x \<in> set cs"
    for v :: js and cs x
  proof (cases v)
    case (Obj kvs)
    from a(1) have "map_of kvs ''children'' = Some (Arr cs)"
      using Obj by (auto split: option.splits)
    then have "(''children'', Arr cs) \<in> set kvs"
      by (rule map_of_SomeD)
    then have "size_prod (\<lambda>_. 0) size (''children'', Arr cs)
                 \<le> size_list (size_prod (\<lambda>_. 0) size) kvs"
      by (simp add: size_list_estimation')
    moreover have "size x < size (Arr cs)"
      using a(2) by (simp add: size_list_estimation' less_Suc_eq_le)
    ultimately show ?thesis
      using Obj by simp
  qed (use a in auto)
  show ?thesis
    by (relation "measure size") (auto intro: smaller)
qed

definition decode_tree :: "js \<Rightarrow> Tree option" where
  "decode_tree v =
     (case (property v ''entryFilePath'', decode_node (property v ''root'')) of
        (Str e, Some r) \<Rightarrow> Some \<lparr>entryFilePath = e, root = r\<rparr>
      | _ \<Rightarrow> None)"

text \<open>
  Modelled from the spec: the state of the Tree Store (section 4.4): the entry file, the
  settings (a plain record with the fields \<^verbatim>\<open>useAlias\<close>, \<^verbatim>\<open>appRoot\<close>,
  \<^verbatim>\<open>webpackConfig\<close>, \<^verbatim>\<open>tsConfig\<close>) and the stored tree, if any.
\<close>

record store =
  stored_entry :: js
  stored_settings :: js
  stored_tree :: "Tree option"

text \<open>
  Modelled from the spec: the settings are "mutated field-by-field"; \<open>put\<close> sets the
  field \<open>k\<close> of a record.
\<close>

fun put :: "string \<Rightarrow> js \<Rightarrow> (string \<times> js) list \<Rightarrow> (string \<times> js) list" where
  "put k v [] = [(k, v)]"
| "put k v ((k', v') # kvs) = (if k' = k then (k, v) # kvs else (k', v') # put k v kvs)"

text \<open>
  Modelled from the spec: \<^verbatim>\<open>updateSettings(key, value)\<close>, a straightforward accessor
  that sets one field of the settings.
\<close>

fun store_updateSettings :: "js \<Rightarrow> js \<Rightarrow> store \<Rightarrow> store" where
  "store_updateSettings (Str k) v p =
     (case stored_settings p of
        Obj kvs \<Rightarrow> p\<lparr>stored_settings := Obj (put k v kvs)\<rparr>
      | _ \<Rightarrow> p)"
| "store_updateSettings k v p = p"

text \<open>
  Modelled from the spec: \<^verbatim>\<open>validSettings()\<close>, section 3: "\<^verbatim>\<open>appRoot\<close> is non-empty,
  and if \<^verbatim>\<open>useAlias\<close> is true, at least one of \<^verbatim>\<open>webpackConfig\<close>/\<^verbatim>\<open>tsConfig\<close> is
  non-empty and points to a parseable file". \<open>configs\<close> lists the parseable configuration
  files on disk; \<open>nonempty_path\<close> and \<open>parseable_config\<close> are the two conditions on a
  field.
\<close>

definition nonempty_path :: "js \<Rightarrow> bool" where
  "nonempty_path v = (case v of Str p \<Rightarrow> p \<noteq> [] | _ \<Rightarrow> False)"

definition parseable_config :: "string list \<Rightarrow> js \<Rightarrow> bool" where
  "parseable_config configs v = (case v of Str p \<Rightarrow> p \<noteq> [] \<and> p \<in> set configs | _ \<Rightarrow> False)"

definition store_validSettings :: "string list \<Rightarrow> store \<Rightarrow> bool" where
  "store_validSettings configs p =
     (nonempty_path (property (stored_settings p) ''appRoot'') \<and>
      (truthy (property (stored_settings p) ''useAlias'') \<longrightarrow>
         parseable_config configs (property (stored_settings p) ''webpackConfig'') \<or>
         parseable_config configs (property (stored_settings p) ''tsConfig'')))"

text \<open>
  Modelled from the spec: \<^verbatim>\<open>parse()\<close>, "requires \<^verbatim>\<open>validSettings()\<close> to be true and an
  entry file to be set; invokes Tree Builder's \<^verbatim>\<open>build\<close>, replaces the stored tree, fails
  with \<^verbatim>\<open>InvalidSettings\<close> or \<^verbatim>\<open>NoEntryFile\<close> otherwise".
\<close>

datatype parse_error = InvalidSettings | NoEntryFile

definition store_parse :: "project \<Rightarrow> string list \<Rightarrow> store \<Rightarrow> parse_error + store" where
  "store_parse pr configs p =
     (if \<not> store_validSettings configs p then Inl InvalidSettings
      else case stored_entry p of
             Str f \<Rightarrow> if f = [] then Inl NoEntryFile else Inr (p\<lparr>stored_tree := Some (build pr f)\<rparr>)
           | _ \<Rightarrow> Inl NoEntryFile)"

text \<open>
  Modelled from the spec: \<^verbatim>\<open>toggleNode(id, expanded)\<close> of the store: it "returns the
  updated tree" and is a no-op when the id is not found. Without a stored tree there is
  nothing to return but \<^verbatim>\<open>undefined\<close>.
\<close>

definition store_toggleNode :: "js \<Rightarrow> js \<Rightarrow> store \<Rightarrow> js \<times> store" where
  "store_toggleNode i e p =
     (case stored_tree p of
        None \<Rightarrow> (Undefined, p)
      | Some t \<Rightarrow>
          (case (i, e) of
             (Num k, Bool b) \<Rightarrow>
               if 0 \<le> k
               then (encode_tree (t\<lparr>root := toggle (nat k) b (root t)\<rparr>),
                     p\<lparr>stored_tree := Some (t\<lparr>root := toggle (nat k) b (root t)\<rparr>)\<rparr>)
               else (encode_tree t, p)
           | _ \<Rightarrow> (encode_tree t, p)))"

text \<open>
  Modelled from the spec: the Tree Store as a parser for the provider, in a project \<open>pr\<close>
  with the parseable configuration files \<open>configs\<close>. A store is created with the entry
  file and the settings it is given, or with \<^verbatim>\<open>useAlias\<close> false and empty paths when it
  is given none, and with no tree. \<^verbatim>\<open>setEntryFile\<close> records the file. A \<^verbatim>\<open>parse()\<close>
  that fails leaves the store untouched. \<^verbatim>\<open>updateTree\<close> is a no-op if no tree is stored
  and otherwise replaces the stored tree by \<^verbatim>\<open>rebuildSubtree\<close> of it, which is the
  parameter \<open>rebuildSubtree\<close>.
\<close>

definition store_parser ::
  "project \<Rightarrow> string list \<Rightarrow> (Tree \<Rightarrow> string \<Rightarrow> Tree) \<Rightarrow> store parser_class" where
  "store_parser pr configs rebuildSubtree =
     \<lparr>SaplingParser = (\<lambda>f st. \<lparr>stored_entry = f,
                                stored_settings = (if st = Undefined then default_settings [] else st),
                                stored_tree = None\<rparr>),
      entryFile = stored_entry,
      settings = stored_settings,
      setTree = (\<lambda>t p. p\<lparr>stored_tree := decode_tree t\<rparr>),
      getTree = (\<lambda>p. case stored_tree p of None \<Rightarrow> Undefined | Some t \<Rightarrow> encode_tree t),
      setEntryFile = (\<lambda>f p. p\<lparr>stored_entry := Str f\<rparr>),
      updateSettings = store_updateSettings,
      validSettings = store_validSettings configs,
      parse = (\<lambda>p. case store_parse pr configs p of Inl e \<Rightarrow> p | Inr p' \<Rightarrow> p'),
      updateTree = (\<lambda>f p. case stored_tree p of
                             None \<Rightarrow> p
                           | Some t \<Rightarrow> p\<lparr>stored_tree := Some (rebuildSubtree t f)\<rparr>),
      toggleNode = store_toggleNode\<rparr>"

subsection \<open>A project to run the definitions on\<close>

text \<open>
  Two files that import each other, \<^verbatim>\<open>App.tsx\<close> and \<^verbatim>\<open>Header.tsx\<close>; no
  configuration files; an editor with one workspace folder, \<^verbatim>\<open>App.tsx\<close> open, and a
  file dialog that answers \<^verbatim>\<open>App.tsx\<close>. \<open>unchanged\<close> is \<^verbatim>\<open>rebuildSubtree\<close> for a
  saved file whose imports are as before: every node keeps its id, its flag and its
  subtree.
\<close>

definition demo_project :: project where
  "demo_project =
     [(''/src/App.tsx'', Analysed (Some ''App'') [Resolved ''/src/Header.tsx'']),
      (''/src/Header.tsx'', Analysed (Some ''Header'') [Resolved ''/src/App.tsx''])]"

definition unchanged :: "Tree \<Rightarrow> string \<Rightarrow> Tree" where
  "unchanged t f = t"

definition demo_parser :: "store parser_class" where
  "demo_parser = store_parser demo_project [] unchanged"

definition demo_vscode :: vscode where
  "demo_vscode =
     \<lparr>workspaceFolders = Some [''/src''],
      showOpenDialog = (\<lambda>selectMany selectFolders. Some [''/src/App.tsx'']),
      activeTextEditor = Some ''/src/App.tsx'',
      configuration_view = Str ''tree''\<rparr>"

definition demo_tree :: Tree where
  "demo_tree =
     \<lparr>entryFilePath = ''/src/App.tsx'',
      root = Node 0 ''/src/App.tsx'' ''App''
               [Node 1 ''/src/Header.tsx'' ''Header''
                  [Node 2 ''/src/App.tsx'' ''App.tsx'' [] False None True]
                  False None False]
               True None False\<rparr>"

text \<open>
  A provider whose parser holds the tree of \<^verbatim>\<open>App.tsx\<close>, with the webview \<open>w\<close> (or
  none) and nothing stored yet; and a provider as the constructor leaves it on an empty
  store, with an empty entry file.
\<close>

definition demo_provider :: "nat option \<Rightarrow> store SidebarProvider" where
  "demo_provider w =
     \<lparr>view = w,
      parser = \<lparr>stored_entry = Str ''/src/App.tsx'',
                stored_settings = default_settings ''/src'',
                stored_tree = Some demo_tree\<rparr>,
      workspaceState = (\<lambda>k. Undefined), posted = [], calls = []\<rparr>"

definition fresh_provider :: "nat option \<Rightarrow> store SidebarProvider" where
  "fresh_provider w =
     \<lparr>view = w,
      parser = \<lparr>stored_entry = Str [],
                stored_settings = default_settings ''/src'',
                stored_tree = None\<rparr>,
      workspaceState = (\<lambda>k. Undefined), posted = [],
      calls = [New (Str []) (default_settings ''/src'')]\<rparr>"

definition toggled_tree :: Tree where
  "toggled_tree =
     \<lparr>entryFilePath = ''/src/App.tsx'',
      root = Node 0 ''/src/App.tsx'' ''App''
               [Node 1 ''/src/Header.tsx'' ''Header''
                  [Node 2 ''/src/App.tsx'' ''App.tsx'' [] False None True]
                  True None False]
               True None False\<rparr>"

text \<open>
  A stored snapshot with a field \<^verbatim>\<open>filePath\<close>, and a workspace store that holds
  nothing but a snapshot under \<^verbatim>\<open>'sapling'\<close>.
\<close>

definition demo_snapshot :: js where
  "demo_snapshot =
     Obj [(''filePath'', Str ''/src/App.tsx''), (''name'', Str ''App''), (''children'', Arr [])]"

definition demo_context :: "js \<Rightarrow> string \<Rightarrow> js" where
  "demo_context snapshot = (\<lambda>k. Undefined)(''sapling'' := snapshot)"

section \<open>Vocabulary of the statements\<close>

text \<open>
  \<open>emitted ops w s s'\<close>: from \<open>s\<close> to \<open>s'\<close> exactly two messages were posted, both to
  the webview \<open>w\<close>: the parser's current tree as \<^verbatim>\<open>'parsed-data'\<close>, then its current
  settings as \<^verbatim>\<open>'settings-data'\<close>. \<open>saved ops s'\<close>: the workspace store holds the
  parser's current tree under \<^verbatim>\<open>'sapling'\<close>.
\<close>

definition emitted ::
  "'p parser_class \<Rightarrow> nat \<Rightarrow> 'p SidebarProvider \<Rightarrow> 'p SidebarProvider \<Rightarrow> bool" where
  "emitted ops w s s' \<longleftrightarrow>
     posted s' = posted s @ [(w, message ''parsed-data'' (getTree ops (parser s'))),
                             (w, message ''settings-data'' (settings ops (parser s')))]"

definition saved :: "'p parser_class \<Rightarrow> 'p SidebarProvider \<Rightarrow> bool" where
  "saved ops s' \<longleftrightarrow> workspaceState s' ''sapling'' = getTree ops (parser s')"

text \<open>Two providers that differ at most in what the workspace store holds.\<close>

definition same_but_store :: "'p SidebarProvider \<Rightarrow> 'p SidebarProvider \<Rightarrow> bool" where
  "same_but_store s t \<longleftrightarrow>
     view s = view t \<and> parser s = parser t \<and> posted s = posted t \<and> calls s = calls t"

text \<open>The settings the constructor hands to the parser, for the workspace root \<open>r\<close>.\<close>

definition settings_used :: "(string \<Rightarrow> js) \<Rightarrow> string \<Rightarrow> js" where
  "settings_used context r =
     (if truthy (context ''saplingSettings'') then context ''saplingSettings''
      else default_settings r)"

section \<open>Properties of the provider\<close>

lemmas host_defs = logged_def postMessage_def update_def call_setEntryFile_def call_parse_def
  call_updateTree_def call_updateSettings_def

lemmas demo_defs = demo_provider_def fresh_provider_def demo_parser_def store_parser_def
  demo_vscode_def demo_tree_def demo_project_def default_settings_def unchanged_def

lemmas run_defs = demo_defs host_defs onDidReceiveMessage_def case_settings_def case_onFile_def
  case_onNodeToggle_def case_onBoldCheck_def settings_switch_def updateView_def
  statusButtonClicked_def onDidSaveTextDocument_def clearWorkSpaceState_def selectFile_def
  member_def nullish_def message_def constructor_def workspaceRoot_def
  store_validSettings_def store_parse_def store_toggleNode_def nonempty_path_def
  parseable_config_def build_def basename_def encode_tree_def decode_tree_def decode_error_def
  emitted_def saved_def Let_def

subsection \<open>\<^verbatim>\<open>updateView\<close>\<close>

lemma updateView_None: "view s = None \<Longrightarrow> updateView ops s = s"
  by (simp add: updateView_def)

lemma updateView_Some:
  "view s = Some w \<Longrightarrow>
   updateView ops s =
     s\<lparr>workspaceState := (workspaceState s)(''sapling'' := getTree ops (parser s)),
       posted := posted s @ [(w, message ''parsed-data'' (getTree ops (parser s))),
                             (w, message ''settings-data'' (settings ops (parser s)))],
       calls := calls s @ [GetTree]\<rparr>"
  by (simp add: updateView_def host_defs Let_def)

lemma updateView_parser [simp]: "parser (updateView ops s) = parser s"
  by (cases "view s") (simp_all add: updateView_None updateView_Some)

lemma updateView_view [simp]: "view (updateView ops s) = view s"
  by (cases "view s") (simp_all add: updateView_None updateView_Some)

lemma updateView_saplingSettings [simp]:
  "workspaceState (updateView ops s) ''saplingSettings'' = workspaceState s ''saplingSettings''"
  by (cases "view s") (simp_all add: updateView_None updateView_Some)

lemma updateView_calls:
  "calls (updateView ops s) = calls s @ (case view s of None \<Rightarrow> [] | Some w \<Rightarrow> [GetTree])"
  by (cases "view s") (simp_all add: updateView_None updateView_Some)

lemma updateView_posted:
  "posted (updateView ops s) =
     posted s @ (case view s of None \<Rightarrow> []
                 | Some w \<Rightarrow> [(w, message ''parsed-data'' (getTree ops (parser s))),
                              (w, message ''settings-data'' (settings ops (parser s)))])"
  by (cases "view s") (simp_all add: updateView_None updateView_Some)

lemma updateView_emitted:
  "view s = Some w \<Longrightarrow> posted s = posted s0 \<Longrightarrow> emitted ops w s0 (updateView ops s)"
  by (simp add: emitted_def updateView_Some)

lemma updateView_saved: "view s = Some w \<Longrightarrow> saved ops (updateView ops s)"
  by (simp add: saved_def updateView_Some)

subsection \<open>The message handler, case by case\<close>

lemma message_type [simp]: "member (message t v) ''type'' = Inr (Str t)"
  by (simp add: member_def message_def nullish_def)

lemma message_value [simp]: "property (message t v) ''value'' = v"
  by (simp add: message_def)

lemma onDidReceiveMessage_settings [simp]:
  "onDidReceiveMessage ops vs w (message ''settings'' v) s = case_settings ops vs v s"
  by (simp add: onDidReceiveMessage_def)

lemma onDidReceiveMessage_onFile [simp]:
  "onDidReceiveMessage ops vs w (message ''onFile'' v) s = case_onFile ops vs s"
  by (simp add: onDidReceiveMessage_def)

lemma onDidReceiveMessage_onNodeToggle [simp]:
  "onDidReceiveMessage ops vs w (message ''onNodeToggle'' v) s = case_onNodeToggle ops v s"
  by (simp add: onDidReceiveMessage_def)

text \<open>
  The inner switch of the \<^verbatim>\<open>'settings'\<close> case either leaves the provider as it is or
  makes one call of \<^verbatim>\<open>updateSettings\<close>; it posts nothing and stores nothing.
\<close>

lemma settings_switch_effect:
  assumes "settings_switch ops vs v s = Inr (Some s1)"
  shows "s1 = s \<or> (\<exists>k x. s1 = call_updateSettings ops k x s)"
  using assms
  by (auto simp: settings_switch_def split: if_splits sum.splits option.splits)

lemma settings_switch_frame:
  assumes "settings_switch ops vs v s = Inr (Some s1)"
  shows "view s1 = view s \<and> posted s1 = posted s \<and> workspaceState s1 = workspaceState s \<and>
         (\<exists>us. calls s1 = calls s @ us \<and> Parse \<notin> set us)"
  using settings_switch_effect [OF assms]
  by (auto simp: host_defs)

text \<open>
  A handler that reached the parser (its trace of calls grew) while a view was attached
  ends in \<^verbatim>\<open>updateView\<close>: the tree and the settings are posted and the tree is stored.
\<close>

lemma case_settings_reaches:
  assumes "view s = Some w" and "case_settings ops vs v s = Inr s'" and "calls s' \<noteq> calls s"
  shows "emitted ops w s s' \<and> saved ops s'"
proof -
  from assms(2,3) obtain s1 where
    s1: "settings_switch ops vs v s = Inr (Some s1)"
    and s': "s' = updateView ops
                   (if validSettings ops
                         (parser (logged ValidSettings
                                    (update ''saplingSettings'' (settings ops (parser s1)) s1)))
                    then call_parse ops
                           (logged ValidSettings
                              (update ''saplingSettings'' (settings ops (parser s1)) s1))
                    else logged ValidSettings
                           (update ''saplingSettings'' (settings ops (parser s1)) s1))"
    by (auto simp: case_settings_def Let_def split: if_splits sum.splits option.splits)
  from settings_switch_frame [OF s1] have f: "view s1 = view s" "posted s1 = posted s"
    by simp_all
  show ?thesis
    unfolding s'
    by (intro conjI updateView_emitted [where w = w] updateView_saved [where w = w])
       (simp_all add: f assms(1) host_defs)
qed

lemma case_onFile_reaches:
  assumes "view s = Some w" and "case_onFile ops vs s = Inr s'" and "calls s' \<noteq> calls s"
  shows "emitted ops w s s' \<and> saved ops s'"
proof -
  from assms(2,3) obtain f where
    s': "s' = updateView ops (call_parse ops (call_setEntryFile ops f s))"
    by (auto simp: case_onFile_def split: if_splits sum.splits option.splits)
  show ?thesis
    unfolding s'
    by (intro conjI updateView_emitted [where w = w] updateView_saved [where w = w])
       (simp_all add: assms(1) host_defs)
qed

lemma onDidSaveTextDocument_reaches:
  assumes "view s = Some w" and "calls (onDidSaveTextDocument ops fileName s) \<noteq> calls s"
  shows "emitted ops w s (onDidSaveTextDocument ops fileName s) \<and>
         saved ops (onDidSaveTextDocument ops fileName s)"
proof -
  from assms(2) have s':
    "onDidSaveTextDocument ops fileName s = updateView ops (call_updateTree ops fileName s)"
    by (auto simp: onDidSaveTextDocument_def split: if_splits)
  show ?thesis
    unfolding s'
    by (intro conjI updateView_emitted [where w = w] updateView_saved [where w = w])
       (simp_all add: assms(1) host_defs)
qed

lemma statusButtonClicked_reaches:
  assumes "view s = Some w" and "calls (statusButtonClicked ops vs uri s) \<noteq> calls s"
  shows "emitted ops w s (statusButtonClicked ops vs uri s) \<and>
         saved ops (statusButtonClicked ops vs uri s)"
proof -
  from assms(2) obtain f where
    s': "statusButtonClicked ops vs uri s
           = updateView ops (call_parse ops (call_setEntryFile ops f s))"
    by (auto simp: statusButtonClicked_def split: if_splits option.splits)
  show ?thesis
    unfolding s'
    by (intro conjI updateView_emitted [where w = w] updateView_saved [where w = w])
       (simp_all add: assms(1) host_defs)
qed

lemma case_onNodeToggle_effect:
  assumes "case_onNodeToggle ops v s = Inr s'"
  shows "posted s' = posted s \<and> view s' = view s \<and>
         (calls s' \<noteq> calls s \<longrightarrow>
            \<not> nullish v \<and>
            calls s' = calls s @ [ToggleNode (property v ''id'') (property v ''expanded'')] \<and>
            parser s' = snd (toggleNode ops (property v ''id'') (property v ''expanded'') (parser s)) \<and>
            workspaceState s' = (workspaceState s)
              (''sapling'' := fst (toggleNode ops (property v ''id'') (property v ''expanded'') (parser s))))"
  using assms
  by (auto simp: case_onNodeToggle_def member_def host_defs Let_def
           split: if_splits sum.splits prod.splits)

text \<open>
  No listener and no command detaches the view: once \<^verbatim>\<open>resolveWebviewView\<close> has set
  \<^verbatim>\<open>_view\<close>, it stays set.
\<close>

lemma view_kept:
  "view (resolveWebviewView w s) = Some w"
  "view (onDidSaveTextDocument ops fileName s) = view s"
  "view (statusButtonClicked ops vs uri s) = view s"
  "view (clearWorkSpaceState ops s) = view s"
  by (simp_all add: resolveWebviewView_def onDidSaveTextDocument_def statusButtonClicked_def
        clearWorkSpaceState_def host_defs split: option.splits)

lemma view_kept_message:
  assumes "onDidReceiveMessage ops vs w dat s = Inr s'"
  shows "view s' = view s"
proof -
  have "case_settings ops vs v s = Inr s' \<Longrightarrow> view s' = view s" for v
    using settings_switch_frame [of ops vs v s]
    by (auto simp: case_settings_def Let_def host_defs split: if_splits sum.splits option.splits)
  moreover have "case_onFile ops vs s = Inr s' \<Longrightarrow> view s' = view s"
    by (auto simp: case_onFile_def host_defs split: if_splits sum.splits option.splits)
  moreover have "case_onNodeToggle ops v s = Inr s' \<Longrightarrow> view s' = view s" for v
    using case_onNodeToggle_effect [of ops v s s'] by simp
  moreover have "view (case_onBoldCheck vs s) = view s"
    by (simp add: case_onBoldCheck_def host_defs split: option.splits)
  ultimately show ?thesis
    using assms
    by (auto simp: onDidReceiveMessage_def host_defs split: sum.splits if_splits)
qed

subsection \<open>The workspace store is never read after construction\<close>

lemma same_but_store_save:
  "same_but_store s t \<Longrightarrow>
   same_but_store (onDidSaveTextDocument ops fileName s) (onDidSaveTextDocument ops fileName t)"
  unfolding onDidSaveTextDocument_def
  by (auto simp: same_but_store_def host_defs updateView_posted updateView_calls
           split: option.splits)

lemma same_but_store_status:
  "same_but_store s t \<Longrightarrow>
   same_but_store (statusButtonClicked ops vs uri s) (statusButtonClicked ops vs uri t)"
  unfolding statusButtonClicked_def
  by (auto simp: same_but_store_def host_defs updateView_posted updateView_calls
           split: option.splits)

lemma same_but_store_clear:
  "same_but_store s t \<Longrightarrow>
   same_but_store (clearWorkSpaceState ops s) (clearWorkSpaceState ops t)"
  unfolding clearWorkSpaceState_def
  by (auto simp: same_but_store_def host_defs updateView_posted updateView_calls
           split: option.splits)

lemma same_but_store_updateView:
  "same_but_store s t \<Longrightarrow> same_but_store (updateView ops s) (updateView ops t)"
  by (cases "view t") (auto simp: same_but_store_def updateView_None updateView_Some)

lemma same_but_store_switch:
  "same_but_store s t \<Longrightarrow>
   rel_sum (=) (rel_option same_but_store) (settings_switch ops vs v s) (settings_switch ops vs v t)"
  unfolding settings_switch_def
  by (auto simp: same_but_store_def host_defs split: sum.splits option.splits)

lemma same_but_store_settings:
  assumes "same_but_store s t"
  shows "rel_sum (=) same_but_store (case_settings ops vs v s) (case_settings ops vs v t)"
proof (cases "truthy v")
  case False
  then show ?thesis
    using assms by (simp add: case_settings_def)
next
  case True
  from same_but_store_switch [OF assms, of ops vs v] show ?thesis
    using True assms
    by (cases "settings_switch ops vs v s"; cases "settings_switch ops vs v t")
       (auto simp: case_settings_def Let_def same_but_store_def host_defs updateView_posted
          updateView_calls option_rel_Some1 option_rel_Some2 split: option.splits)
qed

lemma same_but_store_onFile:
  "same_but_store s t \<Longrightarrow>
   rel_sum (=) same_but_store (case_onFile ops vs s) (case_onFile ops vs t)"
  unfolding case_onFile_def
  by (auto simp: same_but_store_def host_defs updateView_posted updateView_calls
           split: sum.splits option.splits)

lemma same_but_store_toggle:
  "same_but_store s t \<Longrightarrow>
   rel_sum (=) same_but_store (case_onNodeToggle ops v s) (case_onNodeToggle ops v t)"
  unfolding case_onNodeToggle_def
  by (auto simp: same_but_store_def host_defs Let_def split: sum.splits prod.splits)

lemma same_but_store_message:
  assumes "same_but_store s t"
  shows "rel_sum (=) same_but_store
           (onDidReceiveMessage ops vs w dat s) (onDidReceiveMessage ops vs w dat t)"
proof (cases "member dat ''type''")
  case (Inl e)
  then show ?thesis
    by (simp add: onDidReceiveMessage_def)
next
  case (Inr ty)
  have bold: "same_but_store (case_onBoldCheck vs s) (case_onBoldCheck vs t)"
    using assms
    by (auto simp: case_onBoldCheck_def same_but_store_def host_defs split: option.splits)
  have pref: "same_but_store (postMessage w m s) (postMessage w m t)" for m
    using assms by (simp add: same_but_store_def host_defs)
  show ?thesis
    using Inr assms bold pref same_but_store_settings [OF assms] same_but_store_onFile [OF assms]
      same_but_store_toggle [OF assms] same_but_store_updateView [OF assms]
    by (simp add: onDidReceiveMessage_def)
qed

subsection \<open>The constructor\<close>

lemma constructor_restores:
  assumes "truthy (context ''sapling'')" and "workspaceRoot vs = Inr r"
  shows "constructor ops context vs =
           Inr \<lparr>view = None,
                parser = setTree ops (context ''sapling'')
                           (SaplingParser ops (property (context ''sapling'') ''filePath'')
                              (settings_used context r)),
                workspaceState = context, posted = [],
                calls = [New (property (context ''sapling'') ''filePath'') (settings_used context r),
                         SetTree (context ''sapling'')]\<rparr>"
  using assms by (simp add: constructor_def Let_def settings_used_def)

text \<open>
  With no persisted settings, and with \<^verbatim>\<open>workspaceFolders\<close> undefined (\<open>r\<close> empty) or
  starting with the folder \<open>r\<close>, the parser is created with \<^verbatim>\<open>useAlias\<close> false,
  \<^verbatim>\<open>appRoot\<close> \<open>r\<close> and empty \<^verbatim>\<open>webpackConfig\<close> and \<^verbatim>\<open>tsConfig\<close>.
\<close>

lemma constructor_defaults:
  assumes "\<not> truthy (context ''saplingSettings'')"
    and "workspaceFolders vs = None \<and> r = [] \<or> (\<exists>rest. workspaceFolders vs = Some (r # rest))"
  shows "\<exists>s. constructor ops context vs = Inr s \<and>
             hd (calls s) =
               New (if truthy (context ''sapling'') then property (context ''sapling'') ''filePath''
                    else Str [])
                   (Obj [(''useAlias'', Bool False), (''appRoot'', Str r),
                         (''webpackConfig'', Str []), (''tsConfig'', Str [])])"
  using assms
  by (auto simp: constructor_def workspaceRoot_def default_settings_def Let_def)

subsection \<open>The providers of the demo project are reached\<close>

text \<open>
  The fresh provider is what the constructor returns on an empty store; resolving the
  webview 1 attaches it. The status-button command on the fresh provider, then the
  webview, give the demo provider, but for the trace of calls made on the way.
\<close>

lemma fresh_provider_reached:
  "constructor demo_parser (\<lambda>k. Undefined) demo_vscode = Inr (fresh_provider None)"
  "resolveWebviewView 1 (fresh_provider None) = fresh_provider (Some 1)"
  by (simp_all add: run_defs resolveWebviewView_def)

lemma demo_provider_reached:
  "resolveWebviewView 1 (statusButtonClicked demo_parser demo_vscode None (fresh_provider None))
     = (demo_provider (Some 1))
         \<lparr>calls := [New (Str []) (default_settings ''/src''), SetEntryFile ''/src/App.tsx'', Parse]\<rparr>"
  by (simp add: run_defs resolveWebviewView_def)

section \<open>Properties of the parser of the specification\<close>

lemma toggle_ids: "map node_id (nodes (toggle i e r)) = map node_id (nodes r)"
proof (induction r)
  case (Node j f nm cs ex err cyc)
  have "concat (map (\<lambda>x. map node_id (nodes (toggle i e x))) cs)
          = concat (map (\<lambda>x. map node_id (nodes x)) cs)"
    using Node by (induction cs) simp_all
  then show ?case
    by (simp add: map_concat comp_def)
qed

lemma toggle_flags:
  "map expanded (nodes (toggle i e r)) =
     map (\<lambda>x. if node_id x = i then e else expanded x) (nodes r)"
proof (induction r)
  case (Node j f nm cs ex err cyc)
  have "concat (map (\<lambda>x. map expanded (nodes (toggle i e x))) cs)
          = concat (map (\<lambda>x. map (\<lambda>x. if node_id x = i then e else expanded x) (nodes x)) cs)"
    using Node by (induction cs) simp_all
  then show ?case
    by (simp add: map_concat comp_def)
qed

lemma toggle_collapsed: "collapsed (toggle i e r) = collapsed r"
  by (induction r) simp

lemma toggle_missing: "i \<notin> node_id ` set (nodes r) \<Longrightarrow> toggle i e r = r"
proof (induction r)
  case (Node j f nm cs ex err cyc)
  then have "map (toggle i e) cs = map (\<lambda>c. c) cs"
    by (intro map_cong) auto
  with Node.prems show ?case
    by simp
qed

lemma decode_encode_node: "decode_node (encode_node r) = Some r"
proof (induction r)
  case (Node i f nm cs ex err cyc)
  have "those (map decode_node (map encode_node cs)) = Some cs"
    using Node by (induction cs) auto
  moreover have "decode_error (encode_error err) = Some err"
    by (cases err rule: encode_error.cases) (auto simp: decode_error_def)
  ultimately show ?case
    by simp
qed

lemma decode_encode_tree: "decode_tree (encode_tree t) = Some t"
  by (simp add: decode_tree_def encode_tree_def decode_encode_node del: decode_node.simps)

lemma max_depth_le:
  "(\<And>c. c \<in> set cs \<Longrightarrow> depth c \<le> m) \<Longrightarrow> foldr max (map depth cs) 0 \<le> m"
  by (induction cs) auto

lemma build_node_filePath: "filePath (fst (build_node pr stack ex n f)) = f"
  by (simp split: option.splits analysis.splits prod.splits)

lemma build_mirrors:
  "mirrors pr stack (fst (build_node pr stack ex n f))"
  "mirrors_children pr stack imps (fst (build_children pr stack n imps))"
proof (induction pr stack ex n f and pr stack n imps rule: build_node_build_children.induct)
  case (1 pr stack ex n f)
  then show ?case
    by (auto split: option.splits analysis.splits prod.splits)
next
  case (3 pr stack n p imps)
  then show ?case
    using build_node_filePath [of pr stack False n p]
    by (auto split: prod.splits simp del: build_node.simps)
qed (auto split: prod.splits)

text \<open>
  What \<open>mirrors\<close> says of single nodes: every resolved import has its child, a node on
  the path is a cycle leaf, and a node of an analysed file off the path has the file's
  imports below it.
\<close>

lemma mirrors_children_resolved:
  "mirrors_children pr stack imps cs \<Longrightarrow> Resolved p \<in> set imps \<Longrightarrow>
     \<exists>c \<in> set cs. filePath c = p \<and> mirrors pr stack c"
proof (induction imps arbitrary: cs)
  case Nil
  then show ?case
    by simp
next
  case (Cons i imps)
  then show ?case
    by (cases i; cases cs) fastforce+
qed

lemma mirrors_on_path:
  "mirrors pr stack c \<Longrightarrow> filePath c \<in> set stack \<Longrightarrow>
     cycle c \<and> error c = None \<and> children c = []"
  by (cases c) simp

lemma mirrors_analysed:
  "mirrors pr stack c \<Longrightarrow> filePath c \<notin> set stack \<Longrightarrow>
   map_of pr (filePath c) = Some (Analysed d imps) \<Longrightarrow>
     \<not> cycle c \<and> error c = None \<and> mirrors_children pr (filePath c # stack) imps (children c)"
  by (cases c) simp

lemma card_off_path:
  assumes "f \<notin> set stack" and "map_of pr f = Some a"
  shows "card (fst ` set pr - set (f # stack)) < card (fst ` set pr - set stack)"
proof -
  from assms(2) have "map_of pr f \<noteq> None"
    by simp
  then have "f \<in> fst ` set pr"
    by (simp add: map_of_eq_None_iff)
  then have "fst ` set pr - set (f # stack) \<subset> fst ` set pr - set stack"
    using assms(1) by auto
  then show ?thesis
    by (intro psubset_card_mono) auto
qed

lemma build_depth:
  "depth (fst (build_node pr stack ex n f)) \<le> Suc (card (fst ` set pr - set stack))"
  "\<forall>c \<in> set (fst (build_children pr stack n imps)).
      depth c \<le> Suc (card (fst ` set pr - set stack))"
proof (induction pr stack ex n f and pr stack n imps rule: build_node_build_children.induct)
  case (1 pr stack ex n f)
  show ?case
  proof (cases "f \<in> set stack")
    case True
    then show ?thesis
      by simp
  next
    case off: False
    show ?thesis
    proof (cases "map_of pr f")
      case None
      then show ?thesis
        using off by simp
    next
      case (Some a)
      show ?thesis
      proof (cases a)
        case Unparseable
        then show ?thesis
          using off Some by simp
      next
        case (Analysed d imps)
        from card_off_path [OF off Some]
        have less: "Suc (card (fst ` set pr - set (f # stack))) \<le> card (fst ` set pr - set stack)"
          by simp
        from "1.IH" [OF off Some Analysed]
        have "\<And>c. c \<in> set (fst (build_children pr (f # stack) (Suc n) imps)) \<Longrightarrow>
                 depth c \<le> card (fst ` set pr - set stack)"
          using less by fastforce
        then have "foldr max (map depth (fst (build_children pr (f # stack) (Suc n) imps))) 0
                     \<le> card (fst ` set pr - set stack)"
          by (rule max_depth_le)
        then show ?thesis
          using off Some Analysed by (simp add: case_prod_beta)
      qed
    qed
  qed
next
  case (3 pr stack n p imps)
  then show ?case
    by (auto split: prod.splits)
qed (auto split: prod.splits)

section \<open>The claims\<close>

subsection \<open>C1: what is emitted after a mutating operation\<close>

text \<open>
  A node toggle that reaches the parser changes the tree and posts nothing: on the demo
  provider with the webview 1, the handler calls \<^verbatim>\<open>toggleNode\<close>, the parser's tree is no
  longer the one it was, and no message has been posted.
\<close>

theorem toggle_emits_nothing:
  "map_sum id calls
     (onDidReceiveMessage demo_parser demo_vscode 1
        (message ''onNodeToggle'' (Obj [(''id'', Num 1), (''expanded'', Bool True)]))
        (demo_provider (Some 1)))
     = Inr [ToggleNode (Num 1) (Bool True)] \<and>
   map_sum id (\<lambda>s'. getTree demo_parser (parser s') = getTree demo_parser (parser (demo_provider (Some 1))))
     (onDidReceiveMessage demo_parser demo_vscode 1
        (message ''onNodeToggle'' (Obj [(''id'', Num 1), (''expanded'', Bool True)]))
        (demo_provider (Some 1)))
     = Inr False \<and>
   map_sum id posted
     (onDidReceiveMessage demo_parser demo_vscode 1
        (message ''onNodeToggle'' (Obj [(''id'', Num 1), (''expanded'', Bool True)]))
        (demo_provider (Some 1)))
     = Inr []"
  by (simp add: run_defs)

text \<open>
  C1, as the code has it. While a webview \<open>w\<close> is attached: a \<^verbatim>\<open>'settings'\<close> message, an
  \<^verbatim>\<open>'onFile'\<close> message, a document-save event and the status-button command, whenever
  they reach the parser (their trace of calls grows: a settings update, an entry-file
  selection, a file-saved rebuild), post exactly two messages to \<open>w\<close>, the parser's
  current tree as \<^verbatim>\<open>'parsed-data'\<close> and then its current settings as
  \<^verbatim>\<open>'settings-data'\<close>. An \<^verbatim>\<open>'onNodeToggle'\<close> message posts no message.
\<close>

theorem emits_after_mutation:
  assumes "view s = Some w"
  shows "(\<forall>s'. onDidReceiveMessage ops vs w' (message ''settings'' v) s = Inr s' \<and> calls s' \<noteq> calls s
              \<longrightarrow> emitted ops w s s') \<and>
         (\<forall>s'. onDidReceiveMessage ops vs w' (message ''onFile'' x) s = Inr s' \<and> calls s' \<noteq> calls s
              \<longrightarrow> emitted ops w s s') \<and>
         (calls (onDidSaveTextDocument ops fileName s) \<noteq> calls s
              \<longrightarrow> emitted ops w s (onDidSaveTextDocument ops fileName s)) \<and>
         (calls (statusButtonClicked ops vs uri s) \<noteq> calls s
              \<longrightarrow> emitted ops w s (statusButtonClicked ops vs uri s)) \<and>
         (\<forall>s'. onDidReceiveMessage ops vs w' (message ''onNodeToggle'' y) s = Inr s'
              \<longrightarrow> posted s' = posted s)"
proof (intro conjI allI impI)
  fix s'
  assume "onDidReceiveMessage ops vs w' (message ''settings'' v) s = Inr s' \<and> calls s' \<noteq> calls s"
  then show "emitted ops w s s'"
    using case_settings_reaches [OF assms, of ops vs _ s'] by auto
next
  fix s'
  assume "onDidReceiveMessage ops vs w' (message ''onFile'' x) s = Inr s' \<and> calls s' \<noteq> calls s"
  then show "emitted ops w s s'"
    using case_onFile_reaches [OF assms, of ops vs s'] by auto
next
  assume "calls (onDidSaveTextDocument ops fileName s) \<noteq> calls s"
  then show "emitted ops w s (onDidSaveTextDocument ops fileName s)"
    using onDidSaveTextDocument_reaches [OF assms] by simp
next
  assume "calls (statusButtonClicked ops vs uri s) \<noteq> calls s"
  then show "emitted ops w s (statusButtonClicked ops vs uri s)"
    using statusButtonClicked_reaches [OF assms] by simp
next
  fix s'
  assume "onDidReceiveMessage ops vs w' (message ''onNodeToggle'' y) s = Inr s'"
  then show "posted s' = posted s"
    using case_onNodeToggle_effect [of ops y s s'] by simp
qed

text \<open>
  On the demo provider with the webview 1 each of the five operations reaches the parser;
  the first four emit, the toggle does not.
\<close>

theorem emits_after_mutation_witness:
  "view (demo_provider (Some 1)) = Some 1 \<and>
   (\<exists>s'. onDidReceiveMessage demo_parser demo_vscode 1
            (message ''settings'' (Arr [Str ''useAlias'', Bool False])) (demo_provider (Some 1)) = Inr s' \<and>
         calls s' \<noteq> calls (demo_provider (Some 1)) \<and>
         emitted demo_parser 1 (demo_provider (Some 1)) s') \<and>
   (\<exists>s'. onDidReceiveMessage demo_parser demo_vscode 1
            (message ''onFile'' Undefined) (demo_provider (Some 1)) = Inr s' \<and>
         calls s' \<noteq> calls (demo_provider (Some 1)) \<and>
         emitted demo_parser 1 (demo_provider (Some 1)) s') \<and>
   calls (onDidSaveTextDocument demo_parser ''/src/Header.tsx'' (demo_provider (Some 1)))
     \<noteq> calls (demo_provider (Some 1)) \<and>
   emitted demo_parser 1 (demo_provider (Some 1))
     (onDidSaveTextDocument demo_parser ''/src/Header.tsx'' (demo_provider (Some 1))) \<and>
   calls (statusButtonClicked demo_parser demo_vscode (Some ''/src/Header.tsx'') (demo_provider (Some 1)))
     \<noteq> calls (demo_provider (Some 1)) \<and>
   emitted demo_parser 1 (demo_provider (Some 1))
     (statusButtonClicked demo_parser demo_vscode (Some ''/src/Header.tsx'') (demo_provider (Some 1))) \<and>
   (\<exists>s'. onDidReceiveMessage demo_parser demo_vscode 1
            (message ''onNodeToggle'' (Obj [(''id'', Num 1), (''expanded'', Bool True)]))
            (demo_provider (Some 1)) = Inr s' \<and>
         calls s' \<noteq> calls (demo_provider (Some 1)) \<and>
         posted s' = posted (demo_provider (Some 1)))"
proof -
  let ?s = "demo_provider (Some 1)"
  let ?set = "message ''settings'' (Arr [Str ''useAlias'', Bool False])"
  let ?file = "message ''onFile'' Undefined"
  let ?tog = "message ''onNodeToggle'' (Obj [(''id'', Num 1), (''expanded'', Bool True)])"
  have h: "view ?s = Some 1"
    by (simp add: demo_provider_def)
  note t = emits_after_mutation [OF h, of demo_parser demo_vscode 1 "Arr [Str ''useAlias'', Bool False]"
      Undefined "''/src/Header.tsx''" "Some ''/src/Header.tsx''"
      "Obj [(''id'', Num 1), (''expanded'', Bool True)]"]
  have "\<exists>s'. onDidReceiveMessage demo_parser demo_vscode 1 ?set ?s = Inr s' \<and> calls s' \<noteq> calls ?s"
    by (simp add: run_defs)
  then have a: "\<exists>s'. onDidReceiveMessage demo_parser demo_vscode 1 ?set ?s = Inr s' \<and>
                     calls s' \<noteq> calls ?s \<and> emitted demo_parser 1 ?s s'"
    using t by blast
  have "\<exists>s'. onDidReceiveMessage demo_parser demo_vscode 1 ?file ?s = Inr s' \<and> calls s' \<noteq> calls ?s"
    by (simp add: run_defs)
  then have b: "\<exists>s'. onDidReceiveMessage demo_parser demo_vscode 1 ?file ?s = Inr s' \<and>
                     calls s' \<noteq> calls ?s \<and> emitted demo_parser 1 ?s s'"
    using t by blast
  have c: "calls (onDidSaveTextDocument demo_parser ''/src/Header.tsx'' ?s) \<noteq> calls ?s"
    by (simp add: run_defs)
  have d: "calls (statusButtonClicked demo_parser demo_vscode (Some ''/src/Header.tsx'') ?s) \<noteq> calls ?s"
    by (simp add: run_defs)
  have "\<exists>s'. onDidReceiveMessage demo_parser demo_vscode 1 ?tog ?s = Inr s' \<and> calls s' \<noteq> calls ?s"
    by (simp add: run_defs)
  then have e: "\<exists>s'. onDidReceiveMessage demo_parser demo_vscode 1 ?tog ?s = Inr s' \<and>
                     calls s' \<noteq> calls ?s \<and> posted s' = posted ?s"
    using t by blast
  show ?thesis
    using h a b c d e t by blast
qed

subsection \<open>C2: document-save events\<close>

text \<open>
  A save event while the parser's entry file is empty is dropped, also with a webview
  attached: no call of \<^verbatim>\<open>updateTree\<close>, no message.
\<close>

theorem save_without_entry_file:
  "\<not> truthy (entryFile demo_parser (parser (fresh_provider (Some 1)))) \<and>
   view (fresh_provider (Some 1)) = Some 1 \<and>
   calls (onDidSaveTextDocument demo_parser ''/src/App.tsx'' (fresh_provider (Some 1)))
     = calls (fresh_provider (Some 1)) \<and>
   posted (onDidSaveTextDocument demo_parser ''/src/App.tsx'' (fresh_provider (Some 1))) = []"
  by (simp add: run_defs)

text \<open>
  C2, as the code has it. For every document-save event received while the parser's entry
  file is non-empty, the saved file's path is passed to \<^verbatim>\<open>updateTree\<close> (one call, with
  that path; the parser is the updated one) and, when a webview is attached, the updated
  tree and the settings are then posted to it. A save event received while the entry file
  is empty leaves the provider as it is.
\<close>

theorem save_routed_to_updateTree:
  "(truthy (entryFile ops (parser s)) \<longrightarrow>
      parser (onDidSaveTextDocument ops fileName s) = updateTree ops fileName (parser s) \<and>
      calls (onDidSaveTextDocument ops fileName s) =
        calls s @ UpdateTree fileName # (case view s of None \<Rightarrow> [] | Some w \<Rightarrow> [GetTree]) \<and>
      posted (onDidSaveTextDocument ops fileName s) =
        posted s @ (case view s of None \<Rightarrow> []
                    | Some w \<Rightarrow>
                        [(w, message ''parsed-data'' (getTree ops (updateTree ops fileName (parser s)))),
                         (w, message ''settings-data'' (settings ops (updateTree ops fileName (parser s))))])) \<and>
   (\<not> truthy (entryFile ops (parser s)) \<longrightarrow> onDidSaveTextDocument ops fileName s = s)"
  by (cases "view s")
     (simp_all add: onDidSaveTextDocument_def updateView_None updateView_Some host_defs)

theorem save_routed_to_updateTree_witness:
  "truthy (entryFile demo_parser (parser (demo_provider (Some 1)))) \<and>
   parser (onDidSaveTextDocument demo_parser ''/src/Header.tsx'' (demo_provider (Some 1)))
     = updateTree demo_parser ''/src/Header.tsx'' (parser (demo_provider (Some 1))) \<and>
   calls (onDidSaveTextDocument demo_parser ''/src/Header.tsx'' (demo_provider (Some 1)))
     = [UpdateTree ''/src/Header.tsx'', GetTree] \<and>
   posted (onDidSaveTextDocument demo_parser ''/src/Header.tsx'' (demo_provider (Some 1)))
     = [(1, message ''parsed-data'' (encode_tree demo_tree)),
        (1, message ''settings-data'' (default_settings ''/src''))] \<and>
   \<not> truthy (entryFile demo_parser (parser (fresh_provider (Some 1)))) \<and>
   onDidSaveTextDocument demo_parser ''/src/Header.tsx'' (fresh_provider (Some 1))
     = fresh_provider (Some 1)"
proof -
  have h1: "truthy (entryFile demo_parser (parser (demo_provider (Some 1))))"
    by (simp add: demo_defs)
  have h2: "\<not> truthy (entryFile demo_parser (parser (fresh_provider (Some 1))))"
    by (simp add: demo_defs)
  have e: "updateTree demo_parser ''/src/Header.tsx'' (parser (demo_provider (Some 1)))
             = parser (demo_provider (Some 1))"
    by (simp add: demo_defs)
  have v: "view (demo_provider (Some 1)) = Some 1" "posted (demo_provider (Some 1)) = []"
    "calls (demo_provider (Some 1)) = []"
    "getTree demo_parser (parser (demo_provider (Some 1))) = encode_tree demo_tree"
    "settings demo_parser (parser (demo_provider (Some 1))) = default_settings ''/src''"
    by (simp_all add: demo_provider_def demo_parser_def store_parser_def)
  show ?thesis
    using h1 h2 e v
      save_routed_to_updateTree [of demo_parser "demo_provider (Some 1)" "''/src/Header.tsx''"]
      save_routed_to_updateTree [of demo_parser "fresh_provider (Some 1)" "''/src/Header.tsx''"]
    by simp
qed

subsection \<open>C3: toggle events\<close>

text \<open>
  A toggle event while the parser's entry file is empty is dropped: \<^verbatim>\<open>toggleNode\<close> is not
  called and nothing is stored.
\<close>

theorem toggle_without_entry_file:
  "onDidReceiveMessage demo_parser demo_vscode 1
     (message ''onNodeToggle'' (Obj [(''id'', Num 0), (''expanded'', Bool False)]))
     (fresh_provider (Some 1))
   = Inr (fresh_provider (Some 1)) \<and>
   ToggleNode (Num 0) (Bool False) \<notin> set (calls (fresh_provider (Some 1))) \<and>
   workspaceState (fresh_provider (Some 1)) ''sapling'' = Undefined"
  by (simp add: run_defs)

text \<open>
  C3, as the code has it. For every toggle event \<^verbatim>\<open>{id, expanded}\<close> received while the
  parser's entry file is non-empty, the provider calls \<^verbatim>\<open>toggleNode(id, expanded)\<close>
  once, the parser is the toggled one, and the tree the call returned is stored under
  \<^verbatim>\<open>'sapling'\<close>; nothing else changes. A toggle event received while the entry file is
  empty leaves the provider as it is. \<^verbatim>\<open>toggleNode\<close> of the Tree Store of the
  specification, on a stored tree, returns and stores the tree with \<open>toggle\<close> applied to its
  root; \<open>toggle n b\<close> keeps the identifiers and all else of every node, sets the
  \<^verbatim>\<open>expanded\<close> flag of the nodes with id \<open>n\<close> to \<open>b\<close> and keeps the other flags, and is
  a no-op when no node has id \<open>n\<close>.
\<close>

theorem toggle_routed_and_persisted:
  "(truthy (entryFile ops (parser s)) \<longrightarrow>
      onDidReceiveMessage ops vs w (message ''onNodeToggle'' (Obj [(''id'', i), (''expanded'', e)])) s
        = Inr (s\<lparr>parser := snd (toggleNode ops i e (parser s)),
                  workspaceState := (workspaceState s)(''sapling'' := fst (toggleNode ops i e (parser s))),
                  calls := calls s @ [ToggleNode i e]\<rparr>)) \<and>
   (\<not> truthy (entryFile ops (parser s)) \<longrightarrow>
      onDidReceiveMessage ops vs w (message ''onNodeToggle'' (Obj [(''id'', i), (''expanded'', e)])) s
        = Inr s) \<and>
   (stored_tree p = Some t \<longrightarrow>
      toggleNode (store_parser pr configs rebuildSubtree) (Num (int n)) (Bool b) p
        = (encode_tree (t\<lparr>root := toggle n b (root t)\<rparr>),
           p\<lparr>stored_tree := Some (t\<lparr>root := toggle n b (root t)\<rparr>)\<rparr>)) \<and>
   map node_id (nodes (toggle n b r)) = map node_id (nodes r) \<and>
   map expanded (nodes (toggle n b r)) = map (\<lambda>x. if node_id x = n then b else expanded x) (nodes r) \<and>
   collapsed (toggle n b r) = collapsed r \<and>
   (n \<notin> node_id ` set (nodes r) \<longrightarrow> toggle n b r = r)"
proof -
  have "case_onNodeToggle ops (Obj [(''id'', i), (''expanded'', e)]) s
          = (if truthy (entryFile ops (parser s))
             then Inr (s\<lparr>parser := snd (toggleNode ops i e (parser s)),
                  workspaceState := (workspaceState s)(''sapling'' := fst (toggleNode ops i e (parser s))),
                  calls := calls s @ [ToggleNode i e]\<rparr>)
             else Inr s)"
    by (simp add: case_onNodeToggle_def member_def nullish_def host_defs case_prod_beta)
  moreover have "stored_tree p = Some t \<Longrightarrow>
      toggleNode (store_parser pr configs rebuildSubtree) (Num (int n)) (Bool b) p
        = (encode_tree (t\<lparr>root := toggle n b (root t)\<rparr>),
           p\<lparr>stored_tree := Some (t\<lparr>root := toggle n b (root t)\<rparr>)\<rparr>)"
    by (simp add: store_parser_def store_toggleNode_def)
  ultimately show ?thesis
    using toggle_ids [of n b r] toggle_flags [of n b r] toggle_collapsed [of n b r]
      toggle_missing [of n r b]
    by simp
qed

text \<open>
  On the demo provider, expanding node 1 (\<^verbatim>\<open>Header\<close>) stores and returns the tree with
  that one flag set; on the fresh provider the same event is dropped; node 7 does not exist.
\<close>

theorem toggle_routed_and_persisted_witness:
  "truthy (entryFile demo_parser (parser (demo_provider (Some 1)))) \<and>
   onDidReceiveMessage demo_parser demo_vscode 1
     (message ''onNodeToggle'' (Obj [(''id'', Num 1), (''expanded'', Bool True)])) (demo_provider (Some 1))
     = Inr ((demo_provider (Some 1))
              \<lparr>parser := (parser (demo_provider (Some 1)))\<lparr>stored_tree := Some toggled_tree\<rparr>,
                workspaceState := (\<lambda>k. Undefined)(''sapling'' := encode_tree toggled_tree),
                calls := [ToggleNode (Num 1) (Bool True)]\<rparr>) \<and>
   \<not> truthy (entryFile demo_parser (parser (fresh_provider (Some 1)))) \<and>
   onDidReceiveMessage demo_parser demo_vscode 1
     (message ''onNodeToggle'' (Obj [(''id'', Num 1), (''expanded'', Bool True)])) (fresh_provider (Some 1))
     = Inr (fresh_provider (Some 1)) \<and>
   map expanded (nodes (toggle 1 True (root demo_tree))) = [True, True, False] \<and>
   7 \<notin> node_id ` set (nodes (root demo_tree)) \<and>
   toggle 7 True (root demo_tree) = root demo_tree"
proof -
  let ?s = "demo_provider (Some 1)"
  have h1: "truthy (entryFile demo_parser (parser ?s))"
    by (simp add: demo_defs)
  have h2: "\<not> truthy (entryFile demo_parser (parser (fresh_provider (Some 1))))"
    by (simp add: demo_defs)
  have h3: "stored_tree (parser ?s) = Some demo_tree"
    by (simp add: demo_defs)
  have h4: "7 \<notin> node_id ` set (nodes (root demo_tree))"
    by (simp add: demo_tree_def)
  have t: "demo_tree\<lparr>root := toggle 1 True (root demo_tree)\<rparr> = toggled_tree"
    by (simp add: demo_tree_def toggled_tree_def)
  have f: "map (\<lambda>x. if node_id x = 1 then True else expanded x) (nodes (root demo_tree))
             = [True, True, False]"
    by (simp add: demo_tree_def)
  have w: "workspaceState ?s = (\<lambda>k. Undefined)" "calls ?s = []"
    by (simp_all add: demo_provider_def)
  note a = toggle_routed_and_persisted [of demo_parser ?s demo_vscode 1 "Num 1" "Bool True"
      "parser ?s" demo_tree demo_project "[]" unchanged 1 True "root demo_tree"]
  note b = toggle_routed_and_persisted [of demo_parser "fresh_provider (Some 1)" demo_vscode 1
      "Num 1" "Bool True" "parser ?s" demo_tree demo_project "[]" unchanged 7 True "root demo_tree"]
  show ?thesis
    using h1 h2 h3 h4 t f w a b
    by (simp add: demo_parser_def [symmetric])
qed

subsection \<open>C4: the shape of a stored snapshot\<close>

text \<open>
  A snapshot restored from the workspace store that is not of the shape
  \<^verbatim>\<open>{ entryFilePath, root }\<close>: the store holds under \<^verbatim>\<open>'sapling'\<close> a record with the
  fields \<^verbatim>\<open>filePath\<close>, \<^verbatim>\<open>name\<close> and \<^verbatim>\<open>children\<close>. The constructor restores it, creating
  the parser with the entry file \<^verbatim>\<open>/src/App.tsx\<close> that the record carries under
  \<^verbatim>\<open>filePath\<close> and handing the record to \<^verbatim>\<open>setTree\<close>; the record has no field
  \<^verbatim>\<open>entryFilePath\<close> and no field \<^verbatim>\<open>root\<close>.
\<close>

theorem demo_snapshot_restored:
  "map_sum id calls (constructor demo_parser (demo_context demo_snapshot) demo_vscode)
     = Inr [New (Str ''/src/App.tsx'') (default_settings ''/src''), SetTree demo_snapshot] \<and>
   property demo_snapshot ''filePath'' = Str ''/src/App.tsx'' \<and>
   property demo_snapshot ''entryFilePath'' = Undefined \<and>
   property demo_snapshot ''root'' = Undefined"
  by (simp add: constructor_def workspaceRoot_def demo_vscode_def demo_context_def
        demo_snapshot_def default_settings_def Let_def)

text \<open>
  C4, as the code has it. A snapshot persisted to the workspace store is the value that
  \<^verbatim>\<open>getTree\<close> (in \<^verbatim>\<open>updateView\<close>, with a webview attached) or \<^verbatim>\<open>toggleNode\<close> returned,
  stored unchanged under \<^verbatim>\<open>'sapling'\<close>. A snapshot restored from the store (a truthy value
  under \<^verbatim>\<open>'sapling'\<close>, the workspace root found) is handed unchanged to \<^verbatim>\<open>setTree\<close>, and the
  entry file's path the parser is created with is read from the snapshot's field named
  \<^verbatim>\<open>filePath\<close>; so the snapshot that \<^verbatim>\<open>updateView\<close> persisted is restored with the entry
  file found under its \<^verbatim>\<open>filePath\<close>. For a snapshot of the shape
  \<^verbatim>\<open>{ entryFilePath, root }\<close>, whatever the two fields hold, the parser is created with
  the entry file \<^verbatim>\<open>undefined\<close>. All of this holds for every parser.
\<close>

theorem entry_file_read_from_filePath:
  "(view s = Some w \<longrightarrow>
      workspaceState (updateView ops s) ''sapling'' = getTree ops (parser s)) \<and>
   (onDidReceiveMessage ops vs w' (message ''onNodeToggle'' y) s = Inr s' \<and> calls s' \<noteq> calls s \<longrightarrow>
      workspaceState s' ''sapling''
        = fst (toggleNode ops (property y ''id'') (property y ''expanded'') (parser s))) \<and>
   (truthy (context ''sapling'') \<and> workspaceRoot vs = Inr r \<longrightarrow>
      constructor ops context vs =
        Inr \<lparr>view = None,
             parser = setTree ops (context ''sapling'')
                        (SaplingParser ops (property (context ''sapling'') ''filePath'')
                           (settings_used context r)),
             workspaceState = context, posted = [],
             calls = [New (property (context ''sapling'') ''filePath'') (settings_used context r),
                      SetTree (context ''sapling'')]\<rparr>) \<and>
   (view s = Some w \<and> truthy (getTree ops (parser s)) \<and> workspaceRoot vs = Inr r \<longrightarrow>
      (\<exists>s0. constructor ops (workspaceState (updateView ops s)) vs = Inr s0 \<and>
            calls s0 = [New (property (getTree ops (parser s)) ''filePath'')
                            (settings_used (workspaceState s) r),
                        SetTree (getTree ops (parser s))])) \<and>
   (workspaceRoot vs = Inr r \<longrightarrow>
      (\<exists>s0. constructor ops (stored(''sapling'' := Obj [(''entryFilePath'', e), (''root'', n)])) vs
              = Inr s0 \<and>
            calls s0 = [New Undefined (settings_used stored r),
                        SetTree (Obj [(''entryFilePath'', e), (''root'', n)])]))"
proof (intro conjI impI)
  assume "view s = Some w"
  then show "workspaceState (updateView ops s) ''sapling'' = getTree ops (parser s)"
    by (simp add: updateView_Some)
next
  assume "onDidReceiveMessage ops vs w' (message ''onNodeToggle'' y) s = Inr s' \<and> calls s' \<noteq> calls s"
  then show "workspaceState s' ''sapling''
        = fst (toggleNode ops (property y ''id'') (property y ''expanded'') (parser s))"
    using case_onNodeToggle_effect [of ops y s s'] by simp
next
  assume "truthy (context ''sapling'') \<and> workspaceRoot vs = Inr r"
  then show "constructor ops context vs =
        Inr \<lparr>view = None,
             parser = setTree ops (context ''sapling'')
                        (SaplingParser ops (property (context ''sapling'') ''filePath'')
                           (settings_used context r)),
             workspaceState = context, posted = [],
             calls = [New (property (context ''sapling'') ''filePath'') (settings_used context r),
                      SetTree (context ''sapling'')]\<rparr>"
    using constructor_restores [of "context" vs r ops] by simp
next
  assume a: "view s = Some w \<and> truthy (getTree ops (parser s)) \<and> workspaceRoot vs = Inr r"
  then have "workspaceState (updateView ops s) ''sapling'' = getTree ops (parser s)"
    "settings_used (workspaceState (updateView ops s)) r = settings_used (workspaceState s) r"
    by (simp_all add: updateView_Some settings_used_def)
  then show "\<exists>s0. constructor ops (workspaceState (updateView ops s)) vs = Inr s0 \<and>
            calls s0 = [New (property (getTree ops (parser s)) ''filePath'')
                            (settings_used (workspaceState s) r),
                        SetTree (getTree ops (parser s))]"
    using a constructor_restores [of "workspaceState (updateView ops s)" vs r ops] by simp
next
  assume a: "workspaceRoot vs = Inr r"
  let ?c = "stored(''sapling'' := Obj [(''entryFilePath'', e), (''root'', n)])"
  have "settings_used ?c r = settings_used stored r"
    by (simp add: settings_used_def)
  then show "\<exists>s0. constructor ops ?c vs = Inr s0 \<and>
            calls s0 = [New Undefined (settings_used stored r),
                        SetTree (Obj [(''entryFilePath'', e), (''root'', n)])]"
    using a constructor_restores [of ?c vs r ops] by simp
qed

text \<open>
  On the demo provider, whose parser persists records of the shape
  \<^verbatim>\<open>{ entryFilePath, root }\<close>: the tree is stored as the parser returns it, and a
  constructor run on that store creates the parser with the entry file \<^verbatim>\<open>undefined\<close>; the
  record with a \<^verbatim>\<open>filePath\<close> is restored with its entry file.
\<close>

theorem entry_file_read_from_filePath_witness:
  "view (demo_provider (Some 1)) = Some 1 \<and>
   truthy (getTree demo_parser (parser (demo_provider (Some 1)))) \<and>
   workspaceRoot demo_vscode = Inr ''/src'' \<and>
   truthy (demo_context demo_snapshot ''sapling'') \<and>
   workspaceState (updateView demo_parser (demo_provider (Some 1))) ''sapling'' = encode_tree demo_tree \<and>
   (\<exists>s'. onDidReceiveMessage demo_parser demo_vscode 1
            (message ''onNodeToggle'' (Obj [(''id'', Num 1), (''expanded'', Bool True)]))
            (demo_provider (Some 1)) = Inr s' \<and>
         calls s' \<noteq> calls (demo_provider (Some 1)) \<and>
         workspaceState s' ''sapling'' = encode_tree toggled_tree) \<and>
   map_sum id calls (constructor demo_parser (demo_context demo_snapshot) demo_vscode)
     = Inr [New (Str ''/src/App.tsx'') (default_settings ''/src''), SetTree demo_snapshot] \<and>
   (\<exists>s0. constructor demo_parser
            (workspaceState (updateView demo_parser (demo_provider (Some 1)))) demo_vscode = Inr s0 \<and>
         calls s0 = [New Undefined (default_settings ''/src''), SetTree (encode_tree demo_tree)]) \<and>
   (\<exists>s0. constructor demo_parser (demo_context (encode_tree demo_tree)) demo_vscode = Inr s0 \<and>
         calls s0 = [New Undefined (default_settings ''/src''), SetTree (encode_tree demo_tree)])"
proof -
  let ?s = "demo_provider (Some 1)"
  let ?y = "Obj [(''id'', Num 1), (''expanded'', Bool True)]"
  let ?e = "Str ''/src/App.tsx''"
  let ?n = "encode_node (root demo_tree)"
  have h1: "view ?s = Some 1"
    by (simp add: demo_provider_def)
  have g: "getTree demo_parser (parser ?s) = encode_tree demo_tree"
    by (simp add: demo_provider_def demo_parser_def store_parser_def)
  have h2: "truthy (getTree demo_parser (parser ?s))"
    unfolding g by (simp add: encode_tree_def)
  have h3: "workspaceRoot demo_vscode = Inr ''/src''"
    by (simp add: workspaceRoot_def demo_vscode_def)
  have h4: "truthy (demo_context demo_snapshot ''sapling'')"
    by (simp add: demo_context_def demo_snapshot_def)
  have h5: "\<exists>s'. onDidReceiveMessage demo_parser demo_vscode 1 (message ''onNodeToggle'' ?y) ?s = Inr s' \<and>
                 calls s' \<noteq> calls ?s"
    by (simp add: run_defs)
  have v: "fst (toggleNode demo_parser (property ?y ''id'') (property ?y ''expanded'') (parser ?s))
             = encode_tree toggled_tree"
    by (simp add: run_defs toggled_tree_def)
  have p: "property (demo_context demo_snapshot ''sapling'') ''filePath'' = Str ''/src/App.tsx''"
    "settings_used (demo_context demo_snapshot) ''/src'' = default_settings ''/src''"
    "demo_context demo_snapshot ''sapling'' = demo_snapshot"
    "property demo_snapshot ''filePath'' = Str ''/src/App.tsx''"
    "property (encode_tree demo_tree) ''filePath'' = Undefined"
    "settings_used (workspaceState ?s) ''/src'' = default_settings ''/src''"
    "settings_used (\<lambda>k. Undefined) ''/src'' = default_settings ''/src''"
    "Obj [(''entryFilePath'', ?e), (''root'', ?n)] = encode_tree demo_tree"
    by (simp_all add: demo_context_def demo_snapshot_def settings_used_def encode_tree_def
          demo_provider_def demo_tree_def)
  note t = entry_file_read_from_filePath [of ?s 1 demo_parser demo_vscode 1 ?y _
      "demo_context demo_snapshot" "''/src''" "\<lambda>k. Undefined" ?e ?n]
  note t1 = t [THEN conjunct1, rule_format]
  note t2 = t [THEN conjunct2, THEN conjunct1]
  note t3 = t [THEN conjunct2, THEN conjunct2, THEN conjunct1, rule_format]
  note t4 = t [THEN conjunct2, THEN conjunct2, THEN conjunct2, THEN conjunct1, rule_format]
  note t5 = t [THEN conjunct2, THEN conjunct2, THEN conjunct2, THEN conjunct2, rule_format]
  have a: "workspaceState (updateView demo_parser ?s) ''sapling'' = encode_tree demo_tree"
    using t1 [OF h1] unfolding g .
  from t2 h5 v have b:
    "\<exists>s'. onDidReceiveMessage demo_parser demo_vscode 1 (message ''onNodeToggle'' ?y) ?s = Inr s' \<and>
          calls s' \<noteq> calls ?s \<and> workspaceState s' ''sapling'' = encode_tree toggled_tree"
    by metis
  have c: "map_sum id calls (constructor demo_parser (demo_context demo_snapshot) demo_vscode)
     = Inr [New (Str ''/src/App.tsx'') (default_settings ''/src''), SetTree demo_snapshot]"
    using t3 [OF conjI [OF h4 h3]] by (simp add: p)
  have d: "\<exists>s0. constructor demo_parser (workspaceState (updateView demo_parser ?s)) demo_vscode = Inr s0 \<and>
         calls s0 = [New Undefined (default_settings ''/src''), SetTree (encode_tree demo_tree)]"
    using t4 [OF conjI [OF h1 conjI [OF h2 h3]]] unfolding g p .
  have e: "\<exists>s0. constructor demo_parser (demo_context (encode_tree demo_tree)) demo_vscode = Inr s0 \<and>
         calls s0 = [New Undefined (default_settings ''/src''), SetTree (encode_tree demo_tree)]"
    using t5 [OF h3] unfolding p demo_context_def .
  show ?thesis
    using h1 h2 h3 h4 a b c d e by blast
qed

subsection \<open>C5: the default settings\<close>

text \<open>
  C5. With \<^verbatim>\<open>workspaceFolders\<close> an empty array (a workspace with no folder) the
  constructor throws, whatever the workspace store holds: no parser is created, with
  default settings or otherwise. (With \<^verbatim>\<open>workspaceFolders\<close> undefined or non-empty the
  defaults are as \<open>constructor_defaults\<close> states.)
\<close>

theorem constructor_empty_workspaceFolders:
  "constructor ops context (vs\<lparr>workspaceFolders := Some []\<rparr>) = Inl TypeError"
  by (simp add: constructor_def workspaceRoot_def)

subsection \<open>C6: where the persisted state is loaded and saved\<close>

text \<open>
  The status-button command before any webview is attached: the parser parses and holds the
  tree of \<^verbatim>\<open>App.tsx\<close>, and nothing is written under \<^verbatim>\<open>'sapling'\<close>.
\<close>

theorem status_button_before_view:
  "view (fresh_provider None) = None \<and>
   getTree demo_parser (parser (fresh_provider None)) = Undefined \<and>
   calls (statusButtonClicked demo_parser demo_vscode None (fresh_provider None))
     = calls (fresh_provider None) @ [SetEntryFile ''/src/App.tsx'', Parse] \<and>
   getTree demo_parser (parser (statusButtonClicked demo_parser demo_vscode None (fresh_provider None)))
     = encode_tree demo_tree \<and>
   workspaceState (statusButtonClicked demo_parser demo_vscode None (fresh_provider None)) ''sapling''
     = Undefined"
  by (simp add: run_defs)

text \<open>
  C6, as the code has it. Loaded at construction: if the store holds a snapshot under
  \<^verbatim>\<open>'sapling'\<close> (and the workspace root is found), the parser is created with the
  snapshot's stored entry file path (its \<^verbatim>\<open>filePath\<close>) and the snapshot is restored
  through \<^verbatim>\<open>setTree\<close>, with no call of \<^verbatim>\<open>parse\<close>. Loaded only there: every listener
  and command, run on two providers that differ only in the store, ends in providers that
  differ only in the store, and fails on both or on neither. Saved after mutation while
  a webview is attached: a \<^verbatim>\<open>'settings'\<close> or \<^verbatim>\<open>'onFile'\<close> message, a save event and
  the status-button command that reached the parser leave the parser's current tree stored
  under \<^verbatim>\<open>'sapling'\<close>. A toggle that reached the parser leaves the tree that
  \<^verbatim>\<open>toggleNode\<close> returned stored under \<^verbatim>\<open>'sapling'\<close>, with or without a webview.
\<close>

theorem persisted_load_and_save:
  "(truthy (context ''sapling'') \<and> workspaceRoot vs = Inr r \<longrightarrow>
      (\<exists>s0. constructor ops context vs = Inr s0 \<and>
            parser s0 = setTree ops (context ''sapling'')
                          (SaplingParser ops (property (context ''sapling'') ''filePath'')
                             (settings_used context r)) \<and>
            Parse \<notin> set (calls s0) \<and> workspaceState s0 = context)) \<and>
   (same_but_store s t \<longrightarrow>
      rel_sum (=) same_but_store
        (onDidReceiveMessage ops vs w' dat s) (onDidReceiveMessage ops vs w' dat t) \<and>
      same_but_store (onDidSaveTextDocument ops fileName s) (onDidSaveTextDocument ops fileName t) \<and>
      same_but_store (statusButtonClicked ops vs uri s) (statusButtonClicked ops vs uri t) \<and>
      same_but_store (clearWorkSpaceState ops s) (clearWorkSpaceState ops t)) \<and>
   (view s = Some w \<longrightarrow>
      (\<forall>s'. onDidReceiveMessage ops vs w' (message ''settings'' v) s = Inr s' \<and> calls s' \<noteq> calls s
           \<longrightarrow> saved ops s') \<and>
      (\<forall>s'. onDidReceiveMessage ops vs w' (message ''onFile'' x) s = Inr s' \<and> calls s' \<noteq> calls s
           \<longrightarrow> saved ops s') \<and>
      (calls (onDidSaveTextDocument ops fileName s) \<noteq> calls s
           \<longrightarrow> saved ops (onDidSaveTextDocument ops fileName s)) \<and>
      (calls (statusButtonClicked ops vs uri s) \<noteq> calls s
           \<longrightarrow> saved ops (statusButtonClicked ops vs uri s))) \<and>
   (\<forall>s'. onDidReceiveMessage ops vs w' (message ''onNodeToggle'' y) s = Inr s' \<and> calls s' \<noteq> calls s
        \<longrightarrow> workspaceState s' ''sapling''
              = fst (toggleNode ops (property y ''id'') (property y ''expanded'') (parser s)))"
proof (intro conjI allI impI)
  assume "truthy (context ''sapling'') \<and> workspaceRoot vs = Inr r"
  then show "\<exists>s0. constructor ops context vs = Inr s0 \<and>
            parser s0 = setTree ops (context ''sapling'')
                          (SaplingParser ops (property (context ''sapling'') ''filePath'')
                             (settings_used context r)) \<and>
            Parse \<notin> set (calls s0) \<and> workspaceState s0 = context"
    using constructor_restores [of "context" vs r ops] by simp
next
  assume "same_but_store s t"
  then show "rel_sum (=) same_but_store
        (onDidReceiveMessage ops vs w' dat s) (onDidReceiveMessage ops vs w' dat t)"
    by (rule same_but_store_message)
next
  assume "same_but_store s t"
  then show "same_but_store (onDidSaveTextDocument ops fileName s) (onDidSaveTextDocument ops fileName t)"
    by (rule same_but_store_save)
next
  assume "same_but_store s t"
  then show "same_but_store (statusButtonClicked ops vs uri s) (statusButtonClicked ops vs uri t)"
    by (rule same_but_store_status)
next
  assume "same_but_store s t"
  then show "same_but_store (clearWorkSpaceState ops s) (clearWorkSpaceState ops t)"
    by (rule same_but_store_clear)
next
  fix s'
  assume "view s = Some w"
    and "onDidReceiveMessage ops vs w' (message ''settings'' v) s = Inr s' \<and> calls s' \<noteq> calls s"
  then show "saved ops s'"
    using case_settings_reaches [of s w ops vs v s'] by simp
next
  fix s'
  assume "view s = Some w"
    and "onDidReceiveMessage ops vs w' (message ''onFile'' x) s = Inr s' \<and> calls s' \<noteq> calls s"
  then show "saved ops s'"
    using case_onFile_reaches [of s w ops vs s'] by simp
next
  assume "view s = Some w" and "calls (onDidSaveTextDocument ops fileName s) \<noteq> calls s"
  then show "saved ops (onDidSaveTextDocument ops fileName s)"
    using onDidSaveTextDocument_reaches [of s w ops fileName] by simp
next
  assume "view s = Some w" and "calls (statusButtonClicked ops vs uri s) \<noteq> calls s"
  then show "saved ops (statusButtonClicked ops vs uri s)"
    using statusButtonClicked_reaches [of s w ops vs uri] by simp
next
  fix s'
  assume "onDidReceiveMessage ops vs w' (message ''onNodeToggle'' y) s = Inr s' \<and> calls s' \<noteq> calls s"
  then show "workspaceState s' ''sapling''
              = fst (toggleNode ops (property y ''id'') (property y ''expanded'') (parser s))"
    using case_onNodeToggle_effect [of ops y s s'] by simp
qed

theorem persisted_load_and_save_witness:
  "truthy (demo_context demo_snapshot ''sapling'') \<and>
   workspaceRoot demo_vscode = Inr ''/src'' \<and>
   (\<exists>s0. constructor demo_parser (demo_context demo_snapshot) demo_vscode = Inr s0 \<and>
         Parse \<notin> set (calls s0) \<and> workspaceState s0 = demo_context demo_snapshot) \<and>
   same_but_store (demo_provider (Some 1))
     ((demo_provider (Some 1))\<lparr>workspaceState := demo_context demo_snapshot\<rparr>) \<and>
   same_but_store
     (statusButtonClicked demo_parser demo_vscode None (demo_provider (Some 1)))
     (statusButtonClicked demo_parser demo_vscode None
        ((demo_provider (Some 1))\<lparr>workspaceState := demo_context demo_snapshot\<rparr>)) \<and>
   view (demo_provider (Some 1)) = Some 1 \<and>
   calls (statusButtonClicked demo_parser demo_vscode None (demo_provider (Some 1)))
     \<noteq> calls (demo_provider (Some 1)) \<and>
   saved demo_parser (statusButtonClicked demo_parser demo_vscode None (demo_provider (Some 1))) \<and>
   (\<exists>s'. onDidReceiveMessage demo_parser demo_vscode 1
            (message ''onNodeToggle'' (Obj [(''id'', Num 1), (''expanded'', Bool True)]))
            (demo_provider (Some 1)) = Inr s' \<and>
         calls s' \<noteq> calls (demo_provider (Some 1)) \<and>
         workspaceState s' ''sapling'' = encode_tree toggled_tree)"
proof -
  let ?s = "demo_provider (Some 1)"
  let ?t = "?s\<lparr>workspaceState := demo_context demo_snapshot\<rparr>"
  let ?y = "Obj [(''id'', Num 1), (''expanded'', Bool True)]"
  have h1: "truthy (demo_context demo_snapshot ''sapling'') \<and> workspaceRoot demo_vscode = Inr ''/src''"
    by (simp add: demo_context_def demo_snapshot_def workspaceRoot_def demo_vscode_def)
  have h2: "same_but_store ?s ?t"
    by (simp add: same_but_store_def)
  have h3: "view ?s = Some 1"
    by (simp add: demo_provider_def)
  have h4: "calls (statusButtonClicked demo_parser demo_vscode None ?s) \<noteq> calls ?s"
    by (simp add: run_defs)
  have h5: "\<exists>s'. onDidReceiveMessage demo_parser demo_vscode 1 (message ''onNodeToggle'' ?y) ?s = Inr s' \<and>
                 calls s' \<noteq> calls ?s"
    by (simp add: run_defs)
  have v: "fst (toggleNode demo_parser (property ?y ''id'') (property ?y ''expanded'') (parser ?s))
             = encode_tree toggled_tree"
    by (simp add: run_defs toggled_tree_def)
  note t = persisted_load_and_save [of "demo_context demo_snapshot" demo_vscode "''/src''" demo_parser
      ?s ?t 1 Undefined "''/src/Header.tsx''" None 1 Undefined Undefined ?y]
  from t h1 have a: "\<exists>s0. constructor demo_parser (demo_context demo_snapshot) demo_vscode = Inr s0 \<and>
         Parse \<notin> set (calls s0) \<and> workspaceState s0 = demo_context demo_snapshot"
    by blast
  from t h2 have b: "same_but_store (statusButtonClicked demo_parser demo_vscode None ?s)
                       (statusButtonClicked demo_parser demo_vscode None ?t)"
    by blast
  from t h3 h4 have c: "saved demo_parser (statusButtonClicked demo_parser demo_vscode None ?s)"
    by blast
  from t h5 v have d:
    "\<exists>s'. onDidReceiveMessage demo_parser demo_vscode 1 (message ''onNodeToggle'' ?y) ?s = Inr s' \<and>
          calls s' \<noteq> calls ?s \<and> workspaceState s' ''sapling'' = encode_tree toggled_tree"
    by metis
  show ?thesis
    using h1 h2 h3 h4 a b c d by blast
qed

subsection \<open>C7: import cycles\<close>

text \<open>
  C7. \<open>build\<close> is a total function: its recursion was shown to end for every project,
  cyclic or not. The tree it returns for any project and entry file is the import graph
  unfolded from the entry file with the set of file paths on the current recursion path
  (\<open>mirrors\<close>, from the empty path): every import that is not an external package has its
  node, in source order; a node whose file already appears on the path has no children
  (the builder stops descending there) and carries the cycle mark with no error; no other
  node carries the mark. The tree is at most one level deeper than the project has files.
  In particular, when \<open>a\<close> imports \<open>b\<close> and \<open>b\<close> imports \<open>a\<close>, the tree built from \<open>a\<close> has
  below its root a node of \<open>b\<close> without the mark, and below that a node of \<open>a\<close>, the second
  occurrence of the cycled file, which is a childless leaf with the cycle mark.
\<close>

theorem build_stops_at_cycles:
  "mirrors pr [] (root (build pr entry)) \<and>
   depth (root (build pr entry)) \<le> Suc (card (fst ` set pr)) \<and>
   (map_of pr a = Some (Analysed da ia) \<and> Resolved b \<in> set ia \<and> b \<noteq> a \<and>
    map_of pr b = Some (Analysed db ib) \<and> Resolved a \<in> set ib \<longrightarrow>
      (\<exists>cb \<in> set (children (root (build pr a))).
          filePath cb = b \<and> \<not> cycle cb \<and> error cb = None \<and>
          (\<exists>ca \<in> set (children cb).
              filePath ca = a \<and> cycle ca \<and> error ca = None \<and> children ca = [])))"
proof (intro conjI impI)
  show "mirrors pr [] (root (build pr entry))"
    using build_mirrors(1) [of pr "[]" True 0 entry] by (simp add: build_def)
  show "depth (root (build pr entry)) \<le> Suc (card (fst ` set pr))"
    using build_depth(1) [of pr "[]" True 0 entry] by (simp add: build_def)
next
  assume h: "map_of pr a = Some (Analysed da ia) \<and> Resolved b \<in> set ia \<and> b \<noteq> a \<and>
    map_of pr b = Some (Analysed db ib) \<and> Resolved a \<in> set ib"
  let ?r = "root (build pr a)"
  have r: "mirrors pr [] ?r" "filePath ?r = a"
    using build_mirrors(1) [of pr "[]" True 0 a] build_node_filePath [of pr "[]" True 0 a]
    by (simp_all add: build_def)
  from mirrors_analysed [OF r(1), of da ia] h r(2)
  have "mirrors_children pr [a] ia (children ?r)"
    by simp
  from mirrors_children_resolved [OF this, of b] h
  obtain cb where cb: "cb \<in> set (children ?r)" "filePath cb = b" "mirrors pr [a] cb"
    by blast
  from mirrors_analysed [OF cb(3), of db ib] h cb(2)
  have b: "\<not> cycle cb" "error cb = None" "mirrors_children pr [b, a] ib (children cb)"
    by simp_all
  from mirrors_children_resolved [OF b(3), of a] h
  obtain ca where ca: "ca \<in> set (children cb)" "filePath ca = a" "mirrors pr [b, a] ca"
    by blast
  from mirrors_on_path [OF ca(3)] ca(2)
  have "cycle ca \<and> error ca = None \<and> children ca = []"
    by simp
  with cb ca b show "\<exists>cb \<in> set (children ?r).
          filePath cb = b \<and> \<not> cycle cb \<and> error cb = None \<and>
          (\<exists>ca \<in> set (children cb).
              filePath ca = a \<and> cycle ca \<and> error ca = None \<and> children ca = [])"
    by blast
qed

text \<open>
  \<^verbatim>\<open>App.tsx\<close> imports \<^verbatim>\<open>Header.tsx\<close> imports \<^verbatim>\<open>App.tsx\<close>: the second occurrence of
  \<^verbatim>\<open>App.tsx\<close> is a leaf with the cycle mark, three levels down.
\<close>

theorem build_stops_at_cycles_witness:
  "build demo_project ''/src/App.tsx'' = demo_tree \<and>
   mirrors demo_project [] (root demo_tree) \<and>
   depth (root demo_tree) = 3 \<and>
   depth (root demo_tree) \<le> Suc (card (fst ` set demo_project)) \<and>
   map_of demo_project ''/src/App.tsx'' = Some (Analysed (Some ''App'') [Resolved ''/src/Header.tsx'']) \<and>
   map_of demo_project ''/src/Header.tsx'' = Some (Analysed (Some ''Header'') [Resolved ''/src/App.tsx'']) \<and>
   (\<exists>cb \<in> set (children (root demo_tree)).
       filePath cb = ''/src/Header.tsx'' \<and> \<not> cycle cb \<and> error cb = None \<and>
       (\<exists>ca \<in> set (children cb).
           filePath ca = ''/src/App.tsx'' \<and> cycle ca \<and> error ca = None \<and> children ca = []))"
proof -
  have b: "build demo_project ''/src/App.tsx'' = demo_tree"
    by (simp add: build_def demo_project_def demo_tree_def basename_def)
  have d: "depth (root demo_tree) = 3"
    by (simp add: demo_tree_def)
  have m: "map_of demo_project ''/src/App.tsx'' = Some (Analysed (Some ''App'') [Resolved ''/src/Header.tsx''])"
    "map_of demo_project ''/src/Header.tsx'' = Some (Analysed (Some ''Header'') [Resolved ''/src/App.tsx''])"
    by (simp_all add: demo_project_def)
  note t = build_stops_at_cycles [of demo_project "''/src/App.tsx''" "''/src/App.tsx''"
      "Some ''App''" "[Resolved ''/src/Header.tsx'']" "''/src/Header.tsx''"
      "Some ''Header''" "[Resolved ''/src/App.tsx'']"]
  show ?thesis
    using t b d m by simp
qed

subsection \<open>C8: clearing the workspace state\<close>

text \<open>
  C8. \<^verbatim>\<open>clearWorkSpaceState\<close> is \<^verbatim>\<open>updateView\<close> run on the provider with
  \<^verbatim>\<open>'sapling'\<close> and \<^verbatim>\<open>'saplingSettings'\<close> set to \<^verbatim>\<open>undefined\<close> and the parser
  replaced by \<^verbatim>\<open>new SaplingParser('')\<close>. Afterwards the parser is that new parser,
  \<^verbatim>\<open>'saplingSettings'\<close> is \<^verbatim>\<open>undefined\<close>, and \<^verbatim>\<open>'sapling'\<close> is \<^verbatim>\<open>undefined\<close>
  without a webview and the new parser's tree with one; with a webview the new parser's
  tree and settings are posted to it. Nothing of the old parser is stored or posted.
\<close>

theorem clearWorkSpaceState_clears:
  "clearWorkSpaceState ops s =
     updateView ops
       (s\<lparr>workspaceState := (workspaceState s)(''sapling'' := Undefined, ''saplingSettings'' := Undefined),
          parser := SaplingParser ops (Str []) Undefined,
          calls := calls s @ [New (Str []) Undefined]\<rparr>) \<and>
   parser (clearWorkSpaceState ops s) = SaplingParser ops (Str []) Undefined \<and>
   workspaceState (clearWorkSpaceState ops s) ''saplingSettings'' = Undefined \<and>
   workspaceState (clearWorkSpaceState ops s) ''sapling'' =
     (case view s of None \<Rightarrow> Undefined
      | Some w \<Rightarrow> getTree ops (SaplingParser ops (Str []) Undefined)) \<and>
   calls (clearWorkSpaceState ops s) =
     calls s @ New (Str []) Undefined # (case view s of None \<Rightarrow> [] | Some w \<Rightarrow> [GetTree]) \<and>
   posted (clearWorkSpaceState ops s) =
     posted s @ (case view s of None \<Rightarrow> []
                 | Some w \<Rightarrow>
                     [(w, message ''parsed-data'' (getTree ops (SaplingParser ops (Str []) Undefined))),
                      (w, message ''settings-data'' (settings ops (SaplingParser ops (Str []) Undefined)))])"
  by (cases "view s") (simp_all add: clearWorkSpaceState_def updateView_None updateView_Some host_defs)

text \<open>
  On the demo provider with the webview 1, whose parser holds a tree: after the clear both
  keys read \<^verbatim>\<open>undefined\<close>, the entry file is empty and no tree is held.
\<close>

theorem clearWorkSpaceState_clears_witness:
  "getTree demo_parser (parser (demo_provider (Some 1))) = encode_tree demo_tree \<and>
   entryFile demo_parser (parser (clearWorkSpaceState demo_parser (demo_provider (Some 1)))) = Str [] \<and>
   getTree demo_parser (parser (clearWorkSpaceState demo_parser (demo_provider (Some 1)))) = Undefined \<and>
   workspaceState (clearWorkSpaceState demo_parser (demo_provider (Some 1))) ''sapling'' = Undefined \<and>
   workspaceState (clearWorkSpaceState demo_parser (demo_provider (Some 1))) ''saplingSettings''
     = Undefined \<and>
   posted (clearWorkSpaceState demo_parser (demo_provider (Some 1)))
     = [(1, message ''parsed-data'' Undefined),
        (1, message ''settings-data'' (default_settings []))]"
proof -
  have f: "getTree demo_parser (SaplingParser demo_parser (Str []) Undefined) = Undefined"
    "settings demo_parser (SaplingParser demo_parser (Str []) Undefined) = default_settings []"
    "entryFile demo_parser (SaplingParser demo_parser (Str []) Undefined) = Str []"
    by (simp_all add: demo_parser_def store_parser_def)
  have s: "view (demo_provider (Some 1)) = Some 1" "posted (demo_provider (Some 1)) = []"
    "getTree demo_parser (parser (demo_provider (Some 1))) = encode_tree demo_tree"
    by (simp_all add: demo_provider_def demo_parser_def store_parser_def)
  show ?thesis
    using clearWorkSpaceState_clears [of demo_parser "demo_provider (Some 1)", THEN conjunct2] f s
    by simp
qed

subsection \<open>C9: \<^verbatim>\<open>updateView\<close> without a webview\<close>

text \<open>
  C9. When no webview is attached, \<^verbatim>\<open>updateView\<close> leaves the provider as it is: no
  message is posted and nothing is stored. So the operations that change the parser and
  then call \<^verbatim>\<open>updateView\<close>, run before a webview is attached (the status-button command;
  a save event, were one delivered), leave the workspace store, and with it the
  \<^verbatim>\<open>'sapling'\<close> key, unchanged and post nothing.
\<close>

theorem updateView_without_view:
  assumes "view s = None"
  shows "updateView ops s = s \<and>
         workspaceState (statusButtonClicked ops vs uri s) = workspaceState s \<and>
         posted (statusButtonClicked ops vs uri s) = posted s \<and>
         workspaceState (onDidSaveTextDocument ops fileName s) = workspaceState s \<and>
         posted (onDidSaveTextDocument ops fileName s) = posted s"
  using assms
  by (auto simp: updateView_None statusButtonClicked_def onDidSaveTextDocument_def host_defs
           split: option.splits)

text \<open>
  On the fresh provider without a webview the status-button command builds the tree of
  \<^verbatim>\<open>App.tsx\<close> in the parser; the store and the posted messages stay as they were.
\<close>

theorem updateView_without_view_witness:
  "view (fresh_provider None) = None \<and>
   updateView demo_parser (fresh_provider None) = fresh_provider None \<and>
   stored_tree (parser (statusButtonClicked demo_parser demo_vscode None (fresh_provider None)))
     = Some demo_tree \<and>
   workspaceState (statusButtonClicked demo_parser demo_vscode None (fresh_provider None))
     = workspaceState (fresh_provider None) \<and>
   posted (statusButtonClicked demo_parser demo_vscode None (fresh_provider None)) = []"
proof -
  have h: "view (fresh_provider None) = None"
    by (simp add: fresh_provider_def)
  have t: "stored_tree (parser (statusButtonClicked demo_parser demo_vscode None (fresh_provider None)))
             = Some demo_tree"
    by (simp add: run_defs)
  have p: "posted (fresh_provider None) = []"
    by (simp add: fresh_provider_def)
  show ?thesis
    using h t p updateView_without_view [OF h, of demo_parser demo_vscode None]
    by simp
qed

subsection \<open>C10: the \<^verbatim>\<open>'settings'\<close> case parses only valid settings\<close>

text \<open>
  C10. In the \<^verbatim>\<open>'settings'\<close> message handler, when the inner switch is left with the
  provider \<open>s1\<close> (the handler did not return: a settings field update was applied, or
  the key matched no case), the handler returns a provider for which: \<^verbatim>\<open>parse()\<close> is among the calls it made if and only
  if \<^verbatim>\<open>validSettings()\<close> is true of the parser of \<open>s1\<close>; the parser is the parsed one in
  that case and the one of \<open>s1\<close> otherwise; the settings of \<open>s1\<close> are stored under
  \<^verbatim>\<open>'saplingSettings'\<close>; and the current tree and the current settings are posted to the
  view. The handler is registered on a resolved webview, so a view is attached.
\<close>

theorem settings_parse_iff_valid:
  assumes "view s = Some w" and "truthy v" and "settings_switch ops vs v s = Inr (Some s1)"
  shows "\<exists>s'. onDidReceiveMessage ops vs w' (message ''settings'' v) s = Inr s' \<and>
           (Parse \<in> set (drop (length (calls s)) (calls s')) \<longleftrightarrow> validSettings ops (parser s1)) \<and>
           parser s' = (if validSettings ops (parser s1) then parse ops (parser s1) else parser s1) \<and>
           workspaceState s' ''saplingSettings'' = settings ops (parser s1) \<and>
           posted s' = posted s @ [(w, message ''parsed-data'' (getTree ops (parser s'))),
                                   (w, message ''settings-data'' (settings ops (parser s')))]"
proof -
  from settings_switch_frame [OF assms(3)] obtain us where
    f: "view s1 = view s" "posted s1 = posted s" "calls s1 = calls s @ us" "Parse \<notin> set us"
    by blast
  show ?thesis
    using assms f
    by (simp add: case_settings_def Let_def updateView_Some host_defs)
qed

text \<open>
  On the demo provider with a view, switching \<^verbatim>\<open>useAlias\<close> on makes the settings
  invalid (there is no configuration file): no parse, the new settings stored and posted.
\<close>

theorem settings_parse_iff_valid_witness:
  "view (demo_provider (Some 1)) = Some 1 \<and>
   truthy (Arr [Str ''useAlias'', Bool True]) \<and>
   settings_switch demo_parser demo_vscode (Arr [Str ''useAlias'', Bool True]) (demo_provider (Some 1))
     = Inr (Some (call_updateSettings demo_parser (Str ''useAlias'') (Bool True) (demo_provider (Some 1)))) \<and>
   \<not> validSettings demo_parser
        (parser (call_updateSettings demo_parser (Str ''useAlias'') (Bool True) (demo_provider (Some 1)))) \<and>
   (\<exists>s'. onDidReceiveMessage demo_parser demo_vscode 1
            (message ''settings'' (Arr [Str ''useAlias'', Bool True])) (demo_provider (Some 1)) = Inr s' \<and>
         Parse \<notin> set (drop (length (calls (demo_provider (Some 1)))) (calls s')) \<and>
         workspaceState s' ''saplingSettings'' =
           Obj [(''useAlias'', Bool True), (''appRoot'', Str ''/src''),
                (''webpackConfig'', Str []), (''tsConfig'', Str [])] \<and>
         posted s' = [(1, message ''parsed-data'' (encode_tree demo_tree)),
                      (1, message ''settings-data''
                            (Obj [(''useAlias'', Bool True), (''appRoot'', Str ''/src''),
                                  (''webpackConfig'', Str []), (''tsConfig'', Str [])]))])"
proof -
  let ?s = "demo_provider (Some 1)"
  let ?v = "Arr [Str ''useAlias'', Bool True]"
  let ?s1 = "call_updateSettings demo_parser (Str ''useAlias'') (Bool True) ?s"
  have h1: "view ?s = Some 1"
    by (simp add: demo_provider_def)
  have h2: "truthy ?v"
    by simp
  have h3: "settings_switch demo_parser demo_vscode ?v ?s = Inr (Some ?s1)"
    by (simp add: settings_switch_def)
  have h4: "\<not> validSettings demo_parser (parser ?s1)"
    by (simp add: demo_defs host_defs store_validSettings_def parseable_config_def)
  have p: "parser ?s1 = \<lparr>stored_entry = Str ''/src/App.tsx'',
              stored_settings = Obj [(''useAlias'', Bool True), (''appRoot'', Str ''/src''),
                                     (''webpackConfig'', Str []), (''tsConfig'', Str [])],
              stored_tree = Some demo_tree\<rparr>"
    by (simp add: demo_defs host_defs)
  from settings_parse_iff_valid [OF h1 h2 h3, of 1] obtain s' where
    r: "onDidReceiveMessage demo_parser demo_vscode 1 (message ''settings'' ?v) ?s = Inr s'"
       "Parse \<in> set (drop (length (calls ?s)) (calls s')) \<longleftrightarrow> validSettings demo_parser (parser ?s1)"
       "parser s' = (if validSettings demo_parser (parser ?s1)
                     then parse demo_parser (parser ?s1) else parser ?s1)"
       "workspaceState s' ''saplingSettings'' = settings demo_parser (parser ?s1)"
       "posted s' = posted ?s @ [(1, message ''parsed-data'' (getTree demo_parser (parser s'))),
                                 (1, message ''settings-data'' (settings demo_parser (parser s')))]"
    by blast
  from r(3) h4 p have p': "parser s' = \<lparr>stored_entry = Str ''/src/App.tsx'',
              stored_settings = Obj [(''useAlias'', Bool True), (''appRoot'', Str ''/src''),
                                     (''webpackConfig'', Str []), (''tsConfig'', Str [])],
              stored_tree = Some demo_tree\<rparr>"
    by simp
  have "Parse \<notin> set (drop (length (calls ?s)) (calls s'))"
    using r(2) h4 by simp
  moreover have "workspaceState s' ''saplingSettings'' =
           Obj [(''useAlias'', Bool True), (''appRoot'', Str ''/src''),
                (''webpackConfig'', Str []), (''tsConfig'', Str [])]"
    using r(4) p by (simp add: demo_parser_def store_parser_def)
  moreover have "posted s' = [(1, message ''parsed-data'' (encode_tree demo_tree)),
                      (1, message ''settings-data''
                            (Obj [(''useAlias'', Bool True), (''appRoot'', Str ''/src''),
                                  (''webpackConfig'', Str []), (''tsConfig'', Str [])]))]"
    using r(5) p' by (simp add: demo_parser_def store_parser_def demo_provider_def)
  ultimately show ?thesis
    using h1 h2 h3 h4 r(1) by blast
qed

end
